theory Spec2Isabelle
  imports Main "HOL-Library.AList"
begin

section \<open>Python values\<close>

text \<open>
  The message view of \<^verbatim>\<open>django_unicorn/views.py\<close> works on three kinds of data: the
  decoded JSON body of the request, the component instance (an object whose attributes
  are read and written by name) and the \<^verbatim>\<open>data\<close> dictionary that is sent back.
  One datatype covers them. A dictionary is an association list, because Python
  dictionaries keep the order in which keys were inserted and the serializer writes them
  in that order. An object carries the class it is an instance of (the code tests
  \<^verbatim>\<open>isinstance(field, UnicornField)\<close> and \<^verbatim>\<open>isinstance(field, Model)\<close>) and the
  table of the attributes that its classes define and the instance holds, bound methods
  included. The names that the interpreter gives every object (\<^verbatim>\<open>__class__\<close>,
  \<^verbatim>\<open>__dict__\<close>, \<^verbatim>\<open>__doc__\<close>, \<^verbatim>\<open>__repr__\<close>, ...) are not in the table; they come with
  the type of the value, as the attributes of a dictionary or a string do.
  A number with a fraction is a finite float, named by the text the serializer writes
  for it (the shortest decimal text that reads back as the same float); JSON has no
  other floats. Strings are byte strings (UTF-8); every separator the code splits on is
  an ASCII character, so splitting bytes and splitting code points agree.

  The state is tree shaped: a value that Python would share between the component and
  \<^verbatim>\<open>data\<close> is held twice.
\<close>

datatype pyclass = UnicornView | UnicornField | Model | OtherClass

datatype pyval =
    PNone
  | PBool bool
  | PInt int
  | PFloat string
  | PStr string
  | PList "pyval list"
  | PDict "(string \<times> pyval) list"
  | PObj pyclass "(string \<times> pyval) list"
  | PCallable string

text \<open>
  Every \<^verbatim>\<open>raise\<close> of the source and every exception of a Python operation the source
  performs is a value. \<open>Raised\<close> is an exception that comes out of a collaborator
  (a component's method, the component factory). \<open>Unmodelled\<close> marks an operation
  whose outcome the model does not determine: reading or writing an attribute that comes
  with the type of a value and is not in an attribute table, and an operation on an
  instance that defines its own \<^verbatim>\<open>get\<close>, \<^verbatim>\<open>items\<close>, \<^verbatim>\<open>keys\<close>, \<^verbatim>\<open>__setitem__\<close> or
  \<^verbatim>\<open>__call__\<close>. No statement below concludes that an operation is \<open>Unmodelled\<close>.
\<close>

datatype error =
    UnicornViewError string
  | AssertionError string
  | AttributeError
  | KeyError
  | IndexError
  | TypeError
  | Raised string
  | Unmodelled

section \<open>String operations\<close>

definition startswith :: "string \<Rightarrow> string \<Rightarrow> bool" where
  "startswith s p = (take (length p) s = p)"

definition endswith :: "string \<Rightarrow> string \<Rightarrow> bool" where
  "endswith s p = (length p \<le> length s \<and> drop (length s - length p) s = p)"

text \<open>\<^verbatim>\<open>s[1:-1]\<close>: the string without its first and its last character.\<close>

definition strip_ends :: "string \<Rightarrow> string" where
  "strip_ends s = butlast (tl s)"

text \<open>\<^verbatim>\<open>s.split(c)\<close> for a separator of one character: never an empty list.\<close>

fun split :: "string \<Rightarrow> char \<Rightarrow> string list" where
  "split [] c = [[]]"
| "split (x # xs) c =
     (if x = c then [] # split xs c
      else (case split xs c of [] \<Rightarrow> [[x]] | w # ws \<Rightarrow> (x # w) # ws))"

text \<open>\<^verbatim>\<open>s.index(c)\<close>, called only where \<^verbatim>\<open>c in s\<close> holds.\<close>

definition index :: "string \<Rightarrow> char \<Rightarrow> nat" where
  "index s c = length (takeWhile (\<lambda>x. x \<noteq> c) s)"

text \<open>
  \<^verbatim>\<open>s.replace(old, new)\<close>: every occurrence of \<open>old\<close>, found from the left and not
  overlapping, is replaced.
\<close>

function replace :: "string \<Rightarrow> string \<Rightarrow> string \<Rightarrow> string" where
  "replace s old new =
     (if old = [] then new @ concat (map (\<lambda>c. c # new) s)
      else if s = [] then []
      else if startswith s old then new @ replace (drop (length old) s) old new
      else hd s # replace (tl s) old new)"
  by pat_completeness auto
termination
  by (relation "measure (\<lambda>(s, old, new). length s)") auto

section \<open>Parsing a call expression\<close>

text \<open>
  \<^verbatim>\<open>_handle_arg\<close>: a token that starts and ends with a single quote, or starts and ends
  with a double quote, loses its first and last character; for any other token the
  function falls off its end and returns \<^verbatim>\<open>None\<close>.
\<close>

definition handle_arg :: "string \<Rightarrow> pyval" where
  "handle_arg arg =
     (if (startswith arg [CHR 0x27] \<and> endswith arg [CHR 0x27])
         \<or> (startswith arg [CHR 0x22] \<and> endswith arg [CHR 0x22])
      then PStr (strip_ends arg)
      else PNone)"

definition parse_call_method_name :: "string \<Rightarrow> string \<times> pyval list" where
  "parse_call_method_name call_method_name =
     (if CHR ''('' \<in> set call_method_name \<and> endswith call_method_name '')'' then
        (let param_idx = index call_method_name (CHR ''('');
             params_str = drop param_idx call_method_name;
             method_name = replace call_method_name params_str [];
             params_str = strip_ends params_str
         in if params_str = [] then (method_name, [])
            else (method_name, map handle_arg (split params_str (CHR '',''))))
      else (call_method_name, []))"

section \<open>Python operations on values\<close>

text \<open>Truth value testing, as \<^verbatim>\<open>assert x\<close> and \<^verbatim>\<open>if x\<close> perform it.\<close>

fun truthy :: "pyval \<Rightarrow> bool" where
  "truthy PNone = False"
| "truthy (PBool b) = b"
| "truthy (PInt i) = (i \<noteq> 0)"
| "truthy (PFloat s) = (s \<noteq> ''0.0'' \<and> s \<noteq> ''-0.0'')"
| "truthy (PStr s) = (s \<noteq> [])"
| "truthy (PList xs) = (xs \<noteq> [])"
| "truthy (PDict kvs) = (kvs \<noteq> [])"
| "truthy (PObj c attrs) = True"
| "truthy (PCallable n) = True"

fun is_dict :: "pyval \<Rightarrow> bool" where
  "is_dict (PDict kvs) = True"
| "is_dict v = False"

text \<open>\<^verbatim>\<open>isinstance(field, UnicornField) or isinstance(field, Model)\<close>\<close>

fun is_field_or_model :: "pyval \<Rightarrow> bool" where
  "is_field_or_model (PObj c attrs) = (c = UnicornField \<or> c = Model)"
| "is_field_or_model v = False"

text \<open>
  \<^verbatim>\<open>d.get(k)\<close> and \<^verbatim>\<open>d.get(k, default)\<close>. Only a dictionary has the method; the built-in
  types of the other values have no attribute \<^verbatim>\<open>get\<close>.
\<close>

fun py_get_default :: "pyval \<Rightarrow> string \<Rightarrow> pyval \<Rightarrow> error + pyval" where
  "py_get_default (PDict kvs) k dflt =
     (case map_of kvs k of None \<Rightarrow> Inr dflt | Some v \<Rightarrow> Inr v)"
| "py_get_default (PObj c attrs) k dflt =
     (if map_of attrs ''get'' = None then Inl AttributeError else Inl Unmodelled)"
| "py_get_default v k dflt = Inl AttributeError"

definition py_get :: "pyval \<Rightarrow> string \<Rightarrow> error + pyval" where
  "py_get d k = py_get_default d k PNone"

text \<open>
  \<^verbatim>\<open>d[k] = v\<close>: a key that is present keeps its place, a new key goes to the end.
\<close>

fun setitem :: "pyval \<Rightarrow> string \<Rightarrow> pyval \<Rightarrow> error + pyval" where
  "setitem (PDict kvs) k v = Inr (PDict (AList.update k v kvs))"
| "setitem (PObj c attrs) k v =
     (if map_of attrs ''__setitem__'' = None then Inl TypeError else Inl Unmodelled)"
| "setitem d k v = Inl TypeError"

text \<open>\<^verbatim>\<open>d[k]\<close> on a dictionary.\<close>

fun getitem :: "pyval \<Rightarrow> string \<Rightarrow> error + pyval" where
  "getitem (PDict kvs) k = (case map_of kvs k of None \<Rightarrow> Inl KeyError | Some v \<Rightarrow> Inr v)"
| "getitem d k = Inl TypeError"

text \<open>\<^verbatim>\<open>s in x\<close> for a string \<open>s\<close> of one character.\<close>

fun py_contains :: "char \<Rightarrow> pyval \<Rightarrow> error + bool" where
  "py_contains c (PStr s) = Inr (c \<in> set s)"
| "py_contains c (PList xs) = Inr (PStr [c] \<in> set xs)"
| "py_contains c (PDict kvs) = Inr (map_of kvs [c] \<noteq> None)"
| "py_contains c v = Inl TypeError"

text \<open>Iteration, as a \<^verbatim>\<open>for\<close> loop performs it.\<close>

fun py_iter :: "pyval \<Rightarrow> error + pyval list" where
  "py_iter (PList xs) = Inr xs"
| "py_iter (PDict kvs) = Inr (map (\<lambda>kv. PStr (fst kv)) kvs)"
| "py_iter (PStr s) = Inr (map (\<lambda>c. PStr [c]) s)"
| "py_iter v = Inl TypeError"

text \<open>\<^verbatim>\<open>d.items()\<close>\<close>

fun py_items :: "pyval \<Rightarrow> error + (string \<times> pyval) list" where
  "py_items (PDict kvs) = Inr kvs"
| "py_items (PObj c attrs) =
     (if map_of attrs ''items'' = None then Inl AttributeError else Inl Unmodelled)"
| "py_items v = Inl AttributeError"

section \<open>Collaborators\<close>

text \<open>
  What the view calls and this file does not define: the JSON parser, the keyed hash and
  the short-UUID encoder of the checksum, the nesting depth at which the serializer gives
  up, the signing key of the settings, the component
  factory \<^verbatim>\<open>UnicornView.create\<close>, a component's \<^verbatim>\<open>_attributes()\<close> and \<^verbatim>\<open>render()\<close>, the
  bodies of a component's methods, the attribute names Python's built-in types give their
  values, and \<^verbatim>\<open>repr\<close>. They are the fields of an environment.
  \<open>loads\<close> returns \<open>None\<close> where \<^verbatim>\<open>orjson.loads\<close> raises \<^verbatim>\<open>JSONDecodeError\<close>.
  \<open>invoke E component name args\<close> runs the bound method \<open>name\<close> and returns the
  component as the call leaves it, with the exception the call raised, if any.
\<close>

record env =
  secret_key :: string
  loads :: "string \<Rightarrow> pyval option"
  hmac_sha256_hexdigest :: "string \<Rightarrow> string \<Rightarrow> string"
  shortuuid_uuid :: "string \<Rightarrow> string"
  dumps_recursion_limit :: nat
  type_attrs :: "pyval \<Rightarrow> string list"
  create :: "pyval \<Rightarrow> string \<Rightarrow> bool \<Rightarrow> error + pyval"
  attributes :: "pyval \<Rightarrow> (string \<times> pyval) list"
  render :: "pyval \<Rightarrow> error + string"
  invoke :: "pyval \<Rightarrow> string \<Rightarrow> pyval list \<Rightarrow> error option \<times> pyval"
  py_repr :: "pyval \<Rightarrow> string"

text \<open>
  \<^verbatim>\<open>hasattr\<close>, \<^verbatim>\<open>getattr\<close>, \<^verbatim>\<open>setattr\<close>. Every value has the attributes that come with
  its type: a dictionary has \<^verbatim>\<open>keys\<close>, \<^verbatim>\<open>items\<close>, ... (its keys are not attributes), an
  object has \<^verbatim>\<open>__class__\<close>, \<^verbatim>\<open>__dict__\<close>, \<^verbatim>\<open>__doc__\<close>, \<^verbatim>\<open>__repr__\<close>, ... An object has
  the attributes of its table besides. \<^verbatim>\<open>hasattr\<close> sees both kinds. Reading and writing
  go through the table; what reading an attribute of the type gives, and what writing one
  on an object does (some can be shadowed, some are read-only, \<^verbatim>\<open>__dict__\<close> replaces the
  instance's attributes), is not followed. No attribute of a value of a built-in type can
  be set. Setting a name that an object does not have adds it.
\<close>

fun hasattr :: "env \<Rightarrow> pyval \<Rightarrow> string \<Rightarrow> bool" where
  "hasattr E (PObj c attrs) n =
     (map_of attrs n \<noteq> None \<or> n \<in> set (type_attrs E (PObj c attrs)))"
| "hasattr E v n = (n \<in> set (type_attrs E v))"

fun getattr :: "env \<Rightarrow> pyval \<Rightarrow> string \<Rightarrow> error + pyval" where
  "getattr E (PObj c attrs) n =
     (case map_of attrs n of
        Some v \<Rightarrow> Inr v
      | None \<Rightarrow>
          if n \<in> set (type_attrs E (PObj c attrs)) then Inl Unmodelled else Inl AttributeError)"
| "getattr E v n = (if n \<in> set (type_attrs E v) then Inl Unmodelled else Inl AttributeError)"

fun setattr :: "env \<Rightarrow> pyval \<Rightarrow> string \<Rightarrow> pyval \<Rightarrow> error + pyval" where
  "setattr E (PObj c attrs) n v =
     (if map_of attrs n = None \<and> n \<in> set (type_attrs E (PObj c attrs)) then Inl Unmodelled
      else Inr (PObj c (AList.update n v attrs)))"
| "setattr E x n v = Inl AttributeError"

text \<open>
  A container that was reached through \<^verbatim>\<open>getattr\<close> or \<^verbatim>\<open>d[k]\<close> and then mutated is the
  same Python object as before; in the tree the new value is put back where it was read.
  A dictionary that \<^verbatim>\<open>d.get(k, {})\<close> made up because the key is missing belongs to nobody:
  nothing is put back.
\<close>

fun put_attr :: "pyval \<Rightarrow> string \<Rightarrow> pyval \<Rightarrow> pyval" where
  "put_attr (PObj c attrs) n v = PObj c (AList.update n v attrs)"
| "put_attr x n v = x"

fun put_item :: "pyval \<Rightarrow> string \<Rightarrow> pyval \<Rightarrow> pyval" where
  "put_item (PDict kvs) k v = (if map_of kvs k = None then PDict kvs else PDict (AList.update k v kvs))"
| "put_item x k v = x"

section \<open>Serialization\<close>

text \<open>
  \<^verbatim>\<open>orjson.dumps(data)\<close> as the view calls it, with no option: compact output, the keys
  of a dictionary in the order the dictionary holds them (sorting needs
  \<^verbatim>\<open>OPT_SORT_KEYS\<close>, which the call does not pass), integers of 64 bits, floats in
  their shortest form, strings with the escapes of JSON. A value that is not JSON raises
  a \<^verbatim>\<open>TypeError\<close>, and so does a list or dictionary that lies as deep as the
  serializer's recursion limit: \<open>dumps_at E n v\<close> serializes \<open>v\<close> with \<open>n\<close> containers
  around it.
\<close>

function dec :: "nat \<Rightarrow> string" where
  "dec n = (if n < 10 then [''0123456789'' ! n] else dec (n div 10) @ [''0123456789'' ! (n mod 10)])"
  by pat_completeness auto
termination
  by (relation "measure (\<lambda>n. n)") auto

definition dec_int :: "int \<Rightarrow> string" where
  "dec_int i = (if i < 0 then CHR ''-'' # dec (nat (- i)) else dec (nat i))"

definition hex_digit :: "nat \<Rightarrow> char" where
  "hex_digit n = ''0123456789abcdef'' ! n"

definition escape_char :: "char \<Rightarrow> string" where
  "escape_char c =
     (if c = CHR 0x22 then [CHR 0x5C, CHR 0x22]
      else if c = CHR 0x5C then [CHR 0x5C, CHR 0x5C]
      else if c = CHR 0x08 then [CHR 0x5C, CHR ''b'']
      else if c = CHR 0x0C then [CHR 0x5C, CHR ''f'']
      else if c = CHR 0x0A then [CHR 0x5C, CHR ''n'']
      else if c = CHR 0x0D then [CHR 0x5C, CHR ''r'']
      else if c = CHR 0x09 then [CHR 0x5C, CHR ''t'']
      else if (of_char c :: nat) < 32
        then [CHR 0x5C, CHR ''u'', CHR ''0'', CHR ''0'',
              hex_digit (of_char c div 16), hex_digit (of_char c mod 16)]
      else [c])"

definition quote :: "string \<Rightarrow> string" where
  "quote s = [CHR 0x22] @ concat (map escape_char s) @ [CHR 0x22]"

fun join :: "string \<Rightarrow> string list \<Rightarrow> string" where
  "join sep [] = []"
| "join sep [x] = x"
| "join sep (x # y # ys) = x @ sep @ join sep (y # ys)"

fun sequence :: "(error + 'a) list \<Rightarrow> error + 'a list" where
  "sequence [] = Inr []"
| "sequence (Inl e # rs) = Inl e"
| "sequence (Inr x # rs) = (case sequence rs of Inl e \<Rightarrow> Inl e | Inr xs \<Rightarrow> Inr (x # xs))"

fun dumps_at :: "env \<Rightarrow> nat \<Rightarrow> pyval \<Rightarrow> error + string" where
  "dumps_at E n PNone = Inr ''null''"
| "dumps_at E n (PBool b) = Inr (if b then ''true'' else ''false'')"
| "dumps_at E n (PInt i) =
     (if - (2 ^ 63) \<le> i \<and> i < 2 ^ 64 then Inr (dec_int i) else Inl TypeError)"
| "dumps_at E n (PFloat s) = Inr s"
| "dumps_at E n (PStr s) = Inr (quote s)"
| "dumps_at E n (PList xs) =
     (if dumps_recursion_limit E \<le> n then Inl TypeError
      else (case sequence (map (dumps_at E (Suc n)) xs) of
              Inl e \<Rightarrow> Inl e
            | Inr ys \<Rightarrow> Inr (''['' @ join '','' ys @ '']'')))"
| "dumps_at E n (PDict kvs) =
     (if dumps_recursion_limit E \<le> n then Inl TypeError
      else (case sequence (map (\<lambda>(k, v). case dumps_at E (Suc n) v of
                                            Inl e \<Rightarrow> Inl e
                                          | Inr y \<Rightarrow> Inr (quote k @ '':'' @ y)) kvs) of
              Inl e \<Rightarrow> Inl e
            | Inr ys \<Rightarrow> Inr (''{'' @ join '','' ys @ ''}'')))"
| "dumps_at E n (PObj c attrs) = Inl TypeError"
| "dumps_at E n (PCallable m) = Inl TypeError"

definition orjson_dumps :: "env \<Rightarrow> pyval \<Rightarrow> error + string" where
  "orjson_dumps E v = dumps_at E 0 v"

section \<open>The request\<close>

text \<open>
  \<^verbatim>\<open>ComponentRequest\<close>: the decoded body and the three fields read from it.
\<close>

record component_request =
  rq_body :: pyval
  rq_data :: pyval
  rq_id :: pyval
  rq_action_queue :: pyval

text \<open>
  The token the server expects for \<open>data_arg\<close>:
  \<^verbatim>\<open>shortuuid.uuid(hmac.new(key, orjson.dumps(data), "sha256").hexdigest())[:8]\<close>.
\<close>

definition generated_checksum :: "env \<Rightarrow> pyval \<Rightarrow> error + string" where
  "generated_checksum E data_arg =
     (case orjson_dumps E data_arg of
        Inl e \<Rightarrow> Inl e
      | Inr bytes \<Rightarrow>
          Inr (take 8 (shortuuid_uuid E (hmac_sha256_hexdigest E (secret_key E) bytes))))"

definition validate_checksum :: "env \<Rightarrow> pyval \<Rightarrow> pyval \<Rightarrow> error + unit" where
  "validate_checksum E body_arg data_arg =
     (case py_get body_arg ''checksum'' of
        Inl e \<Rightarrow> Inl e
      | Inr checksum \<Rightarrow>
          if \<not> truthy checksum then Inl (AssertionError ''Missing checksum'')
          else (case generated_checksum E data_arg of
                  Inl e \<Rightarrow> Inl e
                | Inr generated \<Rightarrow>
                    if checksum = PStr generated then Inr ()
                    else Inl (AssertionError ''Checksum does not match'')))"

definition component_request_init :: "env \<Rightarrow> string \<Rightarrow> error + component_request" where
  "component_request_init E raw =
     (case loads E raw of
        None \<Rightarrow> Inl (UnicornViewError ''Body could not be parsed'')
      | Some body_arg \<Rightarrow>
          if \<not> truthy body_arg then Inl (AssertionError ''Invalid JSON body'')
          else (case py_get body_arg ''data'' of
                  Inl e \<Rightarrow> Inl e
                | Inr data_arg \<Rightarrow>
                    if data_arg = PNone then Inl (AssertionError ''Missing data'')
                    else (case py_get body_arg ''id'' of
                            Inl e \<Rightarrow> Inl e
                          | Inr id_arg \<Rightarrow>
                              if \<not> truthy id_arg then Inl (AssertionError ''Missing component id'')
                              else (case validate_checksum E body_arg data_arg of
                                      Inl e \<Rightarrow> Inl e
                                    | Inr u \<Rightarrow>
                                        (case py_get_default body_arg ''actionQueue'' (PList []) of
                                           Inl e \<Rightarrow> Inl e
                                         | Inr queue \<Rightarrow>
                                             Inr \<lparr>rq_body = body_arg, rq_data = data_arg,
                                                  rq_id = id_arg, rq_action_queue = queue\<rparr>)))))"

section \<open>Setting properties\<close>

text \<open>
  \<^verbatim>\<open>_set_property_from_data\<close> sets an attribute of the component from the request's
  \<^verbatim>\<open>data\<close>; where the attribute holds a \<^verbatim>\<open>UnicornField\<close> or a \<^verbatim>\<open>Model\<close>, it goes
  through the keys of the value and sets the field's attributes. \<open>set_keys\<close> is its
  \<^verbatim>\<open>for key in value.keys()\<close> loop. The result is the container as the call leaves it,
  with the exception that ended the call, if any.
\<close>

function set_property_from_data :: "env \<Rightarrow> pyval \<Rightarrow> string \<Rightarrow> pyval \<Rightarrow> error option \<times> pyval"
  and set_keys :: "env \<Rightarrow> pyval \<Rightarrow> (string \<times> pyval) list \<Rightarrow> error option \<times> pyval" where
  "set_property_from_data E component_or_field name val =
     (if hasattr E component_or_field name then
        (case getattr E component_or_field name of
           Inl e \<Rightarrow> (Some e, component_or_field)
         | Inr field \<Rightarrow>
             if is_field_or_model field then
               (case val of
                  PDict kvs \<Rightarrow>
                    (case set_keys E field kvs of
                       (err, field') \<Rightarrow> (err, put_attr component_or_field name field'))
                | PObj c attrs \<Rightarrow>
                    (Some (if map_of attrs ''keys'' = None then AttributeError else Unmodelled),
                     component_or_field)
                | _ \<Rightarrow> (Some AttributeError, component_or_field))
             else (case setattr E component_or_field name val of
                     Inl e \<Rightarrow> (Some e, component_or_field)
                   | Inr c' \<Rightarrow> (None, c')))
      else (None, component_or_field))"
| "set_keys E field [] = (None, field)"
| "set_keys E field ((key, key_value) # rest) =
     (case set_property_from_data E field key key_value of
        (Some e, field') \<Rightarrow> (Some e, field')
      | (None, field') \<Rightarrow> set_keys E field' rest)"
  by pat_completeness auto
termination
  by (relation "measure (\<lambda>x. case x of
                    Inl (E, c, n, v) \<Rightarrow> 2 * size v + 1
                  | Inr (E, f, kvs) \<Rightarrow> 2 * size (PDict kvs))") auto

text \<open>
  The loop of \<^verbatim>\<open>_set_property_from_payload\<close> over the parts of the dotted name. The list
  holds the parts not yet visited, so \<^verbatim>\<open>idx == len(property_name_parts) - 1\<close> is "no part
  follows". A part that is neither an attribute of the container nor addressed to a
  dictionary takes no branch of the source's \<^verbatim>\<open>if\<close>/\<^verbatim>\<open>elif\<close>: the loop goes on to the next
  part with the same container. The result is the container and the \<^verbatim>\<open>data\<close>
  dictionary as the loop leaves them.
\<close>

fun set_parts :: "env \<Rightarrow> string list \<Rightarrow> pyval \<Rightarrow> pyval \<Rightarrow> pyval \<Rightarrow> error option \<times> pyval \<times> pyval" where
  "set_parts E [] property_value component_or_field data_or_dict =
     (None, component_or_field, data_or_dict)"
| "set_parts E (property_name_part # rest) property_value component_or_field data_or_dict =
     (if hasattr E component_or_field property_name_part then
        (if rest = [] then
           (case setattr E component_or_field property_name_part property_value of
              Inl e \<Rightarrow> (Some e, component_or_field, data_or_dict)
            | Inr c' \<Rightarrow>
                (case setitem data_or_dict property_name_part property_value of
                   Inl e \<Rightarrow> (Some e, c', data_or_dict)
                 | Inr d' \<Rightarrow> (None, c', d')))
         else
           (case getattr E component_or_field property_name_part of
              Inl e \<Rightarrow> (Some e, component_or_field, data_or_dict)
            | Inr sub \<Rightarrow>
                (case py_get_default data_or_dict property_name_part (PDict []) of
                   Inl e \<Rightarrow> (Some e, component_or_field, data_or_dict)
                 | Inr sub_data \<Rightarrow>
                     (case set_parts E rest property_value sub sub_data of
                        (err, sub', sub_data') \<Rightarrow>
                          (err, put_attr component_or_field property_name_part sub',
                           put_item data_or_dict property_name_part sub_data')))))
      else if is_dict component_or_field then
        (if rest = [] then
           (case setitem component_or_field property_name_part property_value of
              Inl e \<Rightarrow> (Some e, component_or_field, data_or_dict)
            | Inr c' \<Rightarrow>
                (case setitem data_or_dict property_name_part property_value of
                   Inl e \<Rightarrow> (Some e, c', data_or_dict)
                 | Inr d' \<Rightarrow> (None, c', d')))
         else
           (case getitem component_or_field property_name_part of
              Inl e \<Rightarrow> (Some e, component_or_field, data_or_dict)
            | Inr sub \<Rightarrow>
                (case py_get_default data_or_dict property_name_part (PDict []) of
                   Inl e \<Rightarrow> (Some e, component_or_field, data_or_dict)
                 | Inr sub_data \<Rightarrow>
                     (case set_parts E rest property_value sub sub_data of
                        (err, sub', sub_data') \<Rightarrow>
                          (err, put_item component_or_field property_name_part sub',
                           put_item data_or_dict property_name_part sub_data')))))
      else set_parts E rest property_value component_or_field data_or_dict)"

definition set_property_from_payload :: "env \<Rightarrow> pyval \<Rightarrow> pyval \<Rightarrow> pyval \<Rightarrow> error option \<times> pyval \<times> pyval" where
  "set_property_from_payload E component payload data_arg =
     (case py_get payload ''name'' of
        Inl e \<Rightarrow> (Some e, component, data_arg)
      | Inr property_name \<Rightarrow>
          (case py_get payload ''value'' of
             Inl e \<Rightarrow> (Some e, component, data_arg)
           | Inr property_value \<Rightarrow>
               if property_name \<noteq> PNone \<and> property_value \<noteq> PNone then
                 (case property_name of
                    PStr s \<Rightarrow> set_parts E (split s (CHR ''.'')) property_value component data_arg
                  | _ \<Rightarrow> (Some AttributeError, component, data_arg))
               else (None, component, data_arg)))"

section \<open>Calling methods\<close>

text \<open>Calling the value of an attribute: only a bound method can be called.\<close>

fun py_call :: "env \<Rightarrow> pyval \<Rightarrow> pyval \<Rightarrow> pyval list \<Rightarrow> error option \<times> pyval" where
  "py_call E component (PCallable n) args = invoke E component n args"
| "py_call E component (PObj c attrs) args =
     (Some (if map_of attrs ''__call__'' = None then TypeError else Unmodelled), component)"
| "py_call E component f args = (Some TypeError, component)"

text \<open>\<^verbatim>\<open>for (k, v) in attrs.items(): data[k] = v\<close>\<close>

fun set_items :: "pyval \<Rightarrow> (string \<times> pyval) list \<Rightarrow> error option \<times> pyval" where
  "set_items data_arg [] = (None, data_arg)"
| "set_items data_arg ((attribute_name, attribute_value) # rest) =
     (case setitem data_arg attribute_name attribute_value of
        Inl e \<Rightarrow> (Some e, data_arg)
      | Inr d' \<Rightarrow> set_items d' rest)"

definition call_method_name :: "env \<Rightarrow> pyval \<Rightarrow> string \<Rightarrow> pyval list \<Rightarrow> pyval \<Rightarrow> error option \<times> pyval \<times> pyval" where
  "call_method_name E component method_name params data_arg =
     (if hasattr E component method_name then
        (case getattr E component method_name of
           Inl e \<Rightarrow> (Some e, component, data_arg)
         | Inr func \<Rightarrow>
             (case (if params \<noteq> [] then py_call E component func params
                    else py_call E component func []) of
                (Some e, component') \<Rightarrow> (Some e, component', data_arg)
              | (None, component') \<Rightarrow>
                  (case set_items data_arg (attributes E component') of
                     (err, d') \<Rightarrow> (err, component', d'))))
      else (None, component, data_arg))"

section \<open>The message view\<close>

text \<open>\<^verbatim>\<open>str(x)\<close>, as the f-string of the unknown-action error formats the action type.\<close>

definition py_str :: "env \<Rightarrow> pyval \<Rightarrow> string" where
  "py_str E v =
     (case v of
        PStr s \<Rightarrow> s
      | PNone \<Rightarrow> ''None''
      | PBool b \<Rightarrow> (if b then ''True'' else ''False'')
      | PInt i \<Rightarrow> dec_int i
      | _ \<Rightarrow> py_repr E v)"

text \<open>
  The \<^verbatim>\<open>callMethod\<close> branch for a name that is a string: the reset, the assignment
  \<^verbatim>\<open>prop=value\<close>, the method call. The state is the pair of the component and
  \<^verbatim>\<open>component_request.data\<close>.
\<close>

definition call_method_action :: "env \<Rightarrow> pyval \<Rightarrow> string \<Rightarrow> string \<Rightarrow> pyval \<times> pyval \<Rightarrow> error option \<times> pyval \<times> pyval" where
  "call_method_action E component_id component_name name st =
     (case st of (component, data_arg) \<Rightarrow>
        if name = ''reset'' \<or> name = ''reset()'' then
          (case create E component_id component_name True of
             Inl e \<Rightarrow> (Some e, component, data_arg)
           | Inr fresh \<Rightarrow> (None, fresh, PDict (attributes E fresh)))
        else if CHR ''='' \<in> set name then
          (case split name (CHR ''='') of
             property_name # rhs # others \<Rightarrow>
               (let property_value = handle_arg rhs
                in if hasattr E component property_name then
                     (case setattr E component property_name property_value of
                        Inl e \<Rightarrow> (Some e, component, data_arg)
                      | Inr c' \<Rightarrow>
                          (case setitem data_arg property_name property_value of
                             Inl e \<Rightarrow> (Some e, c', data_arg)
                           | Inr d' \<Rightarrow> (None, c', d')))
                   else (None, component, data_arg))
           | _ \<Rightarrow> (Some IndexError, component, data_arg))
        else
          (case parse_call_method_name name of
             (method_name, params) \<Rightarrow> call_method_name E component method_name params data_arg))"

text \<open>
  One turn of the loop over the action queue. A name that is not a string fails where
  Python fails: \<^verbatim>\<open>"=" in name\<close> needs a container, \<^verbatim>\<open>split\<close> and \<^verbatim>\<open>endswith\<close> need a
  string, \<^verbatim>\<open>hasattr\<close> needs a string for a name.
\<close>

definition apply_action :: "env \<Rightarrow> pyval \<Rightarrow> string \<Rightarrow> pyval \<Rightarrow> pyval \<times> pyval \<Rightarrow> error option \<times> pyval \<times> pyval" where
  "apply_action E component_id component_name action st =
     (case py_get action ''type'' of
        Inl e \<Rightarrow> (Some e, st)
      | Inr action_type \<Rightarrow>
          (case py_get_default action ''payload'' (PDict []) of
             Inl e \<Rightarrow> (Some e, st)
           | Inr payload \<Rightarrow>
               if action_type = PStr ''syncInput'' then
                 set_property_from_payload E (fst st) payload (snd st)
               else if action_type = PStr ''callMethod'' then
                 (case py_get_default payload ''name'' (PStr []) of
                    Inl e \<Rightarrow> (Some e, st)
                  | Inr name \<Rightarrow>
                      if \<not> truthy name then
                        (Some (AssertionError (''Missing '' @ [CHR 0x27] @ ''name'' @ [CHR 0x27]
                                                @ '' key for callMethod'')), st)
                      else
                        (case name of
                           PStr s \<Rightarrow> call_method_action E component_id component_name s st
                         | _ \<Rightarrow>
                             (case py_contains (CHR ''='') name of
                                Inl e \<Rightarrow> (Some e, st)
                              | Inr True \<Rightarrow> (Some AttributeError, st)
                              | Inr False \<Rightarrow>
                                  (case py_contains (CHR ''('') name of
                                     Inl e \<Rightarrow> (Some e, st)
                                   | Inr True \<Rightarrow> (Some AttributeError, st)
                                   | Inr False \<Rightarrow> (Some TypeError, st)))))
               else
                 (Some (UnicornViewError (''Unknown action_type '' @ [CHR 0x27]
                                           @ py_str E action_type @ [CHR 0x27])), st)))"

fun process_actions :: "env \<Rightarrow> pyval \<Rightarrow> string \<Rightarrow> pyval list \<Rightarrow> pyval \<times> pyval \<Rightarrow> error option \<times> pyval \<times> pyval" where
  "process_actions E component_id component_name [] st = (None, st)"
| "process_actions E component_id component_name (action # rest) st =
     (case apply_action E component_id component_name action st of
        (Some e, st') \<Rightarrow> (Some e, st')
      | (None, st') \<Rightarrow> process_actions E component_id component_name rest st')"

text \<open>The first loop of the view: the component takes the request's \<^verbatim>\<open>data\<close>.\<close>

fun hydrate :: "env \<Rightarrow> pyval \<Rightarrow> (string \<times> pyval) list \<Rightarrow> error option \<times> pyval" where
  "hydrate E component [] = (None, component)"
| "hydrate E component ((name, val) # rest) =
     (case set_property_from_data E component name val of
        (Some e, c') \<Rightarrow> (Some e, c')
      | (None, c') \<Rightarrow> hydrate E c' rest)"

datatype response = JsonResponse pyval

text \<open>
  The body of \<^verbatim>\<open>message\<close>, before the decorators. The result is what the function returns
  or raises, and the component instance the request ends with (\<open>None\<close> when the request
  never obtained one). The transport decorators \<^verbatim>\<open>csrf_protect\<close> and \<^verbatim>\<open>require_POST\<close>
  are outside the model.
\<close>

definition message_view :: "env \<Rightarrow> string \<Rightarrow> string option \<Rightarrow> (error + response) \<times> pyval option" where
  "message_view E raw component_name =
     (case component_name of
        None \<Rightarrow> (Inl (AssertionError ''Missing component name in url''), None)
      | Some name \<Rightarrow>
          if name = [] then (Inl (AssertionError ''Missing component name in url''), None)
          else
            (case component_request_init E raw of
               Inl e \<Rightarrow> (Inl e, None)
             | Inr rq \<Rightarrow>
                 (case create E (rq_id rq) name False of
                    Inl e \<Rightarrow> (Inl e, None)
                  | Inr component \<Rightarrow>
                      (case py_items (rq_data rq) of
                         Inl e \<Rightarrow> (Inl e, Some component)
                       | Inr items \<Rightarrow>
                           (case hydrate E component items of
                              (Some e, c1) \<Rightarrow> (Inl e, Some c1)
                            | (None, c1) \<Rightarrow>
                                (case py_iter (rq_action_queue rq) of
                                   Inl e \<Rightarrow> (Inl e, Some c1)
                                 | Inr actions \<Rightarrow>
                                     (case process_actions E (rq_id rq) name actions (c1, rq_data rq) of
                                        (Some e, c2, d2) \<Rightarrow> (Inl e, Some c2)
                                      | (None, c2, d2) \<Rightarrow>
                                          (case render E c2 of
                                             Inl e \<Rightarrow> (Inl e, Some c2)
                                           | Inr rendered_component \<Rightarrow>
                                               (Inr (JsonResponse (PDict
                                                  [(''id'', rq_id rq),
                                                   (''dom'', PStr rendered_component),
                                                   (''data'', d2)])),
                                                Some c2)))))))))"

text \<open>
  \<^verbatim>\<open>handle_error\<close>: a \<^verbatim>\<open>UnicornViewError\<close> and an \<^verbatim>\<open>AssertionError\<close> become the
  response \<^verbatim>\<open>{"error": str(e)}\<close>; any other exception passes through.
\<close>

fun handle_error :: "error + response \<Rightarrow> error + response" where
  "handle_error (Inl (UnicornViewError m)) = Inr (JsonResponse (PDict [(''error'', PStr m)]))"
| "handle_error (Inl (AssertionError m)) = Inr (JsonResponse (PDict [(''error'', PStr m)]))"
| "handle_error r = r"

definition message :: "env \<Rightarrow> string \<Rightarrow> string option \<Rightarrow> (error + response) \<times> pyval option" where
  "message E raw component_name =
     (case message_view E raw component_name of (r, inst) \<Rightarrow> (handle_error r, inst))"

section \<open>A sample component and environment\<close>

text \<open>
  The attribute names of Python's built-in types and of a bound method, as CPython 3.11
  lists them with \<^verbatim>\<open>dir\<close>; \<^verbatim>\<open>bool\<close> has the names of \<^verbatim>\<open>int\<close>.
\<close>

definition dict_attrs :: "string list" where
  "dict_attrs =
      [''__class__'', ''__class_getitem__'', ''__contains__'', ''__delattr__'',
       ''__delitem__'', ''__dir__'', ''__doc__'', ''__eq__'', ''__format__'', ''__ge__'',
       ''__getattribute__'', ''__getitem__'', ''__getstate__'', ''__gt__'', ''__hash__'',
       ''__init__'', ''__init_subclass__'', ''__ior__'', ''__iter__'', ''__le__'',
       ''__len__'', ''__lt__'', ''__ne__'', ''__new__'', ''__or__'', ''__reduce__'',
       ''__reduce_ex__'', ''__repr__'', ''__reversed__'', ''__ror__'', ''__setattr__'',
       ''__setitem__'', ''__sizeof__'', ''__str__'', ''__subclasshook__'', ''clear'',
       ''copy'', ''fromkeys'', ''get'', ''items'', ''keys'', ''pop'', ''popitem'',
       ''setdefault'', ''update'', ''values'']"

definition list_attrs :: "string list" where
  "list_attrs =
      [''__add__'', ''__class__'', ''__class_getitem__'', ''__contains__'',
       ''__delattr__'', ''__delitem__'', ''__dir__'', ''__doc__'', ''__eq__'',
       ''__format__'', ''__ge__'', ''__getattribute__'', ''__getitem__'',
       ''__getstate__'', ''__gt__'', ''__hash__'', ''__iadd__'', ''__imul__'',
       ''__init__'', ''__init_subclass__'', ''__iter__'', ''__le__'', ''__len__'',
       ''__lt__'', ''__mul__'', ''__ne__'', ''__new__'', ''__reduce__'',
       ''__reduce_ex__'', ''__repr__'', ''__reversed__'', ''__rmul__'', ''__setattr__'',
       ''__setitem__'', ''__sizeof__'', ''__str__'', ''__subclasshook__'', ''append'',
       ''clear'', ''copy'', ''count'', ''extend'', ''index'', ''insert'', ''pop'',
       ''remove'', ''reverse'', ''sort'']"

definition str_attrs :: "string list" where
  "str_attrs =
      [''__add__'', ''__class__'', ''__contains__'', ''__delattr__'', ''__dir__'',
       ''__doc__'', ''__eq__'', ''__format__'', ''__ge__'', ''__getattribute__'',
       ''__getitem__'', ''__getnewargs__'', ''__getstate__'', ''__gt__'', ''__hash__'',
       ''__init__'', ''__init_subclass__'', ''__iter__'', ''__le__'', ''__len__'',
       ''__lt__'', ''__mod__'', ''__mul__'', ''__ne__'', ''__new__'', ''__reduce__'',
       ''__reduce_ex__'', ''__repr__'', ''__rmod__'', ''__rmul__'', ''__setattr__'',
       ''__sizeof__'', ''__str__'', ''__subclasshook__'', ''capitalize'', ''casefold'',
       ''center'', ''count'', ''encode'', ''endswith'', ''expandtabs'', ''find'',
       ''format'', ''format_map'', ''index'', ''isalnum'', ''isalpha'', ''isascii'',
       ''isdecimal'', ''isdigit'', ''isidentifier'', ''islower'', ''isnumeric'',
       ''isprintable'', ''isspace'', ''istitle'', ''isupper'', ''join'', ''ljust'',
       ''lower'', ''lstrip'', ''maketrans'', ''partition'', ''removeprefix'',
       ''removesuffix'', ''replace'', ''rfind'', ''rindex'', ''rjust'', ''rpartition'',
       ''rsplit'', ''rstrip'', ''split'', ''splitlines'', ''startswith'', ''strip'',
       ''swapcase'', ''title'', ''translate'', ''upper'', ''zfill'']"

definition int_attrs :: "string list" where
  "int_attrs =
      [''__abs__'', ''__add__'', ''__and__'', ''__bool__'', ''__ceil__'', ''__class__'',
       ''__delattr__'', ''__dir__'', ''__divmod__'', ''__doc__'', ''__eq__'',
       ''__float__'', ''__floor__'', ''__floordiv__'', ''__format__'', ''__ge__'',
       ''__getattribute__'', ''__getnewargs__'', ''__getstate__'', ''__gt__'',
       ''__hash__'', ''__index__'', ''__init__'', ''__init_subclass__'', ''__int__'',
       ''__invert__'', ''__le__'', ''__lshift__'', ''__lt__'', ''__mod__'', ''__mul__'',
       ''__ne__'', ''__neg__'', ''__new__'', ''__or__'', ''__pos__'', ''__pow__'',
       ''__radd__'', ''__rand__'', ''__rdivmod__'', ''__reduce__'', ''__reduce_ex__'',
       ''__repr__'', ''__rfloordiv__'', ''__rlshift__'', ''__rmod__'', ''__rmul__'',
       ''__ror__'', ''__round__'', ''__rpow__'', ''__rrshift__'', ''__rshift__'',
       ''__rsub__'', ''__rtruediv__'', ''__rxor__'', ''__setattr__'', ''__sizeof__'',
       ''__str__'', ''__sub__'', ''__subclasshook__'', ''__truediv__'', ''__trunc__'',
       ''__xor__'', ''as_integer_ratio'', ''bit_count'', ''bit_length'', ''conjugate'',
       ''denominator'', ''from_bytes'', ''imag'', ''numerator'', ''real'', ''to_bytes'']"

definition none_attrs :: "string list" where
  "none_attrs =
      [''__bool__'', ''__class__'', ''__delattr__'', ''__dir__'', ''__doc__'',
       ''__eq__'', ''__format__'', ''__ge__'', ''__getattribute__'', ''__getstate__'',
       ''__gt__'', ''__hash__'', ''__init__'', ''__init_subclass__'', ''__le__'',
       ''__lt__'', ''__ne__'', ''__new__'', ''__reduce__'', ''__reduce_ex__'',
       ''__repr__'', ''__setattr__'', ''__sizeof__'', ''__str__'', ''__subclasshook__'']"

definition method_attrs :: "string list" where
  "method_attrs =
      [''__call__'', ''__class__'', ''__delattr__'', ''__dir__'', ''__doc__'',
       ''__eq__'', ''__format__'', ''__func__'', ''__ge__'', ''__getattribute__'',
       ''__getstate__'', ''__gt__'', ''__hash__'', ''__init__'', ''__init_subclass__'',
       ''__le__'', ''__lt__'', ''__ne__'', ''__new__'', ''__reduce__'',
       ''__reduce_ex__'', ''__repr__'', ''__self__'', ''__setattr__'', ''__sizeof__'',
       ''__str__'', ''__subclasshook__'']"

definition float_attrs :: "string list" where
  "float_attrs =
      [''__abs__'', ''__add__'', ''__bool__'', ''__ceil__'', ''__class__'',
       ''__delattr__'', ''__dir__'', ''__divmod__'', ''__doc__'', ''__eq__'',
       ''__float__'', ''__floor__'', ''__floordiv__'', ''__format__'', ''__ge__'',
       ''__getattribute__'', ''__getformat__'', ''__getnewargs__'', ''__getstate__'',
       ''__gt__'', ''__hash__'', ''__init__'', ''__init_subclass__'', ''__int__'',
       ''__le__'', ''__lt__'', ''__mod__'', ''__mul__'', ''__ne__'', ''__neg__'',
       ''__new__'', ''__pos__'', ''__pow__'', ''__radd__'', ''__rdivmod__'',
       ''__reduce__'', ''__reduce_ex__'', ''__repr__'', ''__rfloordiv__'', ''__rmod__'',
       ''__rmul__'', ''__round__'', ''__rpow__'', ''__rsub__'', ''__rtruediv__'',
       ''__setattr__'', ''__sizeof__'', ''__str__'', ''__sub__'', ''__subclasshook__'',
       ''__truediv__'', ''__trunc__'', ''as_integer_ratio'', ''conjugate'', ''fromhex'',
       ''hex'', ''imag'', ''is_integer'', ''real'']"

text \<open>
  The names every instance of a class written in Python has, and the three members of
  \<^verbatim>\<open>UnicornView\<close> that the view itself uses.
\<close>

definition object_attrs :: "string list" where
  "object_attrs =
      [''__class__'', ''__delattr__'', ''__dict__'', ''__dir__'', ''__doc__'',
       ''__eq__'', ''__format__'', ''__ge__'', ''__getattribute__'', ''__getstate__'',
       ''__gt__'', ''__hash__'', ''__init__'', ''__init_subclass__'', ''__le__'',
       ''__lt__'', ''__module__'', ''__ne__'', ''__new__'', ''__reduce__'',
       ''__reduce_ex__'', ''__repr__'', ''__setattr__'', ''__sizeof__'', ''__str__'',
       ''__subclasshook__'', ''__weakref__'']"

definition view_attrs :: "string list" where
  "view_attrs = [''_attributes'', ''create'', ''render'']"

fun sample_type_attrs :: "pyval \<Rightarrow> string list" where
  "sample_type_attrs (PDict kvs) = dict_attrs"
| "sample_type_attrs (PList xs) = list_attrs"
| "sample_type_attrs (PStr s) = str_attrs"
| "sample_type_attrs (PInt i) = int_attrs"
| "sample_type_attrs (PFloat s) = float_attrs"
| "sample_type_attrs (PBool b) = int_attrs"
| "sample_type_attrs PNone = none_attrs"
| "sample_type_attrs (PCallable n) = method_attrs"
| "sample_type_attrs (PObj c attrs) =
     (if c = UnicornView then object_attrs @ view_attrs else object_attrs)"

text \<open>
  The component of the docstring of \<^verbatim>\<open>_set_property_from_payload\<close>, with a plain
  attribute, a dictionary and a method added:
  \<^verbatim>\<open>
  class Author(UnicornField):
      name = "Neil"

  class TestView(UnicornView):
      name = "World"
      author = Author()
      flavors = {"first": "vanilla"}
      def set_name(self, name):
          self.name = name
  \<close>
\<close>

definition sample_component :: pyval where
  "sample_component =
     PObj UnicornView
       [(''name'', PStr ''World''),
        (''author'', PObj UnicornField [(''name'', PStr ''Neil'')]),
        (''flavors'', PDict [(''first'', PStr ''vanilla'')]),
        (''set_name'', PCallable ''set_name'')]"

fun is_callable :: "pyval \<Rightarrow> bool" where
  "is_callable (PCallable n) = True"
| "is_callable v = False"

fun sample_attributes :: "pyval \<Rightarrow> (string \<times> pyval) list" where
  "sample_attributes (PObj c attrs) = filter (\<lambda>kv. \<not> is_callable (snd kv)) attrs"
| "sample_attributes v = []"

fun sample_invoke :: "pyval \<Rightarrow> string \<Rightarrow> pyval list \<Rightarrow> error option \<times> pyval" where
  "sample_invoke component n [x] =
     (if n = ''set_name'' then (None, put_attr component ''name'' x)
      else (Some AttributeError, component))"
| "sample_invoke component n args = (Some TypeError, component)"

text \<open>
  Stand-ins for the digest and the encoder, which keep apart messages that differ in
  their first four bytes: the digest is the hexadecimal text of the message followed by
  the key, the encoder pads or cuts it to 22 characters. The serializer of the sample
  environment gives up at the 255th container.
\<close>

definition hex_byte :: "char \<Rightarrow> string" where
  "hex_byte c = [hex_digit (of_char c div 16), hex_digit (of_char c mod 16)]"

definition sample_hmac :: "string \<Rightarrow> string \<Rightarrow> string" where
  "sample_hmac k m = concat (map hex_byte (m @ k))"

definition sample_uuid :: "string \<Rightarrow> string" where
  "sample_uuid h = take 22 (h @ replicate 22 (CHR ''2''))"

text \<open>Request bodies, and the decoder on them; any other body counts as not decodable.\<close>

definition body_text_queue :: string where
  \<open>body_text_queue = ''{"id":"c1","data":{"name":"World"},"checksum":"7b226e61","actionQueue":[{"type":"syncInput","payload":{"name":"name","value":"Moon"}},{"type":"launch","payload":{}},{"type":"syncInput","payload":{"name":"name","value":"Sun"}}]}''\<close>

definition body_queue :: pyval where
  "body_queue =
     PDict [(''id'', PStr ''c1''),
            (''data'', PDict [(''name'', PStr ''World'')]),
            (''checksum'', PStr ''7b226e61''),
            (''actionQueue'', PList
               [PDict [(''type'', PStr ''syncInput''),
                       (''payload'', PDict [(''name'', PStr ''name''), (''value'', PStr ''Moon'')])],
                PDict [(''type'', PStr ''launch''), (''payload'', PDict [])],
                PDict [(''type'', PStr ''syncInput''),
                       (''payload'', PDict [(''name'', PStr ''name''), (''value'', PStr ''Sun'')])]])]"

definition body_text_empty_data :: string where
  \<open>body_text_empty_data = ''{"id":"c1","data":{},"checksum":"7b7d7365"}''\<close>

definition body_empty_data :: pyval where
  "body_empty_data =
     PDict [(''id'', PStr ''c1''), (''data'', PDict []), (''checksum'', PStr ''7b7d7365'')]"

definition body_text_no_data :: string where
  \<open>body_text_no_data = ''{"id":"c1","checksum":"7b7d7365"}''\<close>

definition body_no_data :: pyval where
  "body_no_data = PDict [(''id'', PStr ''c1''), (''checksum'', PStr ''7b7d7365'')]"

definition body_text_no_id :: string where
  \<open>body_text_no_id = ''{"id":"","data":{},"checksum":"7b7d7365"}''\<close>

definition body_no_id :: pyval where
  "body_no_id = PDict [(''id'', PStr []), (''data'', PDict []), (''checksum'', PStr ''7b7d7365'')]"

definition sample_loads :: "string \<Rightarrow> pyval option" where
  "sample_loads raw =
     map_of [(body_text_queue, body_queue),
             (body_text_empty_data, body_empty_data),
             (body_text_no_data, body_no_data),
             (body_text_no_id, body_no_id),
             (''{}'', PDict []),
             (''null'', PNone)] raw"

definition sample_env :: env where
  "sample_env =
     \<lparr>secret_key = ''secret'',
      loads = sample_loads,
      hmac_sha256_hexdigest = sample_hmac,
      shortuuid_uuid = sample_uuid,
      dumps_recursion_limit = 254,
      type_attrs = sample_type_attrs,
      create = (\<lambda>component_id component_name skip_cache. Inr sample_component),
      attributes = sample_attributes,
      render = (\<lambda>component. Inr ''<div></div>''),
      invoke = sample_invoke,
      py_repr = (\<lambda>v. ''...'')\<rparr>"

section \<open>Notions of the specification\<close>

text \<open>
  The specification's wording of the argument rule, to compare \<^verbatim>\<open>_handle_arg\<close> with: a
  token is fully wrapped in matching quotes when it has an opening and a closing quote
  character of the same kind, so it has at least two characters.
\<close>

definition fully_wrapped :: "string \<Rightarrow> bool" where
  "fully_wrapped t =
     (2 \<le> length t \<and> (hd t = CHR 0x27 \<or> hd t = CHR 0x22) \<and> last t = hd t)"

text \<open>
  What the code makes of a token: the inner text of a fully wrapped token, the empty
  string for a token that is one quote character alone, \<^verbatim>\<open>None\<close> otherwise.
\<close>

definition arg_value :: "string \<Rightarrow> pyval" where
  "arg_value t =
     (if fully_wrapped t \<or> t = [CHR 0x27] \<or> t = [CHR 0x22] then PStr (strip_ends t)
      else PNone)"

text \<open>The text between the first opening parenthesis and the last character.\<close>

definition arg_text :: "string \<Rightarrow> string" where
  "arg_text s = strip_ends (dropWhile (\<lambda>c. c \<noteq> CHR ''('') s)"

text \<open>A list inside a list, \<open>k\<close> times over: \<open>k + 1\<close> containers.\<close>

fun nest :: "nat \<Rightarrow> pyval" where
  "nest 0 = PList []"
| "nest (Suc k) = PList [nest k]"

text \<open>The two kinds of action, as the client sends them, and the sample component's data.\<close>

definition sync_input :: "string \<Rightarrow> pyval \<Rightarrow> pyval" where
  "sync_input path v =
     PDict [(''type'', PStr ''syncInput''),
            (''payload'', PDict [(''name'', PStr path), (''value'', v)])]"

definition call_method :: "string \<Rightarrow> pyval" where
  "call_method name =
     PDict [(''type'', PStr ''callMethod''), (''payload'', PDict [(''name'', PStr name)])]"

definition sample_data :: pyval where
  "sample_data =
     PDict [(''name'', PStr ''World''),
            (''author'', PDict [(''name'', PStr ''Neil'')]),
            (''flavors'', PDict [(''first'', PStr ''vanilla'')])]"

section \<open>Properties of the call parser\<close>

declare replace.simps [simp del]

text \<open>
  Removing the parameter text from the call expression leaves what stands before the
  first parenthesis: the parameter text starts with the first parenthesis of the string,
  so it occurs in the string once, as its suffix.
\<close>

lemma replace_suffix:
  "c \<in> set s \<Longrightarrow> replace s (dropWhile (\<lambda>x. x \<noteq> c) s) [] = takeWhile (\<lambda>x. x \<noteq> c) s"
proof (induction s)
  case Nil
  then show ?case by simp
next
  case (Cons a s)
  show ?case
  proof (cases "a = c")
    case True
    have "replace (a # s) (a # s) [] = replace [] (a # s) []"
      by (subst replace.simps) (simp add: startswith_def)
    also have "\<dots> = []"
      by (subst replace.simps) simp
    finally show ?thesis using True by simp
  next
    case False
    let ?p = "dropWhile (\<lambda>x. x \<noteq> c) s"
    from False Cons.prems have mem: "c \<in> set s" by simp
    then have ne: "?p \<noteq> []" by simp
    have "hd ?p = c" using ne hd_dropWhile[of "\<lambda>x. x \<noteq> c" s] by simp
    with ne False have ns: "\<not> startswith (a # s) ?p"
      by (cases ?p) (auto simp: startswith_def)
    have "replace (a # s) ?p [] = a # replace s ?p []"
      by (subst replace.simps) (use mem ns in auto)
    with Cons.IH[OF mem] False show ?thesis by simp
  qed
qed

lemma endswith_single: "endswith s [c] = (s \<noteq> [] \<and> last s = c)"
proof (cases s rule: rev_cases)
  case Nil
  then show ?thesis by (simp add: endswith_def)
next
  case (snoc ys y)
  then show ?thesis by (auto simp: endswith_def)
qed

lemma startswith_single: "startswith s [c] = (s \<noteq> [] \<and> hd s = c)"
  by (cases s) (auto simp: startswith_def)

lemma handle_arg_arg_value: "handle_arg t = arg_value t"
proof (cases t)
  case Nil
  then show ?thesis
    by (simp add: handle_arg_def arg_value_def fully_wrapped_def startswith_def)
next
  case (Cons a u)
  show ?thesis
  proof (cases u)
    case Nil
    with Cons show ?thesis
      by (auto simp: handle_arg_def arg_value_def fully_wrapped_def startswith_single endswith_single)
  next
    case (Cons b w)
    with \<open>t = a # u\<close> show ?thesis
      by (auto simp: handle_arg_def arg_value_def fully_wrapped_def startswith_single endswith_single)
  qed
qed

lemma drop_index: "drop (index s c) s = dropWhile (\<lambda>x. x \<noteq> c) s"
  by (simp add: index_def dropWhile_eq_drop)

lemma parse_call_method_name_eq:
  "parse_call_method_name s =
     (if CHR ''('' \<in> set s \<and> s \<noteq> [] \<and> last s = CHR '')''
      then (takeWhile (\<lambda>c. c \<noteq> CHR ''('') s,
            if arg_text s = [] then [] else map arg_value (split (arg_text s) (CHR '','')))
      else (s, []))"
proof (cases "CHR ''('' \<in> set s \<and> s \<noteq> [] \<and> last s = CHR '')''")
  case True
  then have "replace s (dropWhile (\<lambda>x. x \<noteq> CHR ''('') s) [] = takeWhile (\<lambda>x. x \<noteq> CHR ''('') s"
    by (simp add: replace_suffix)
  with True show ?thesis
    by (simp add: parse_call_method_name_def endswith_single drop_index arg_text_def
        handle_arg_arg_value Let_def cong: map_cong)
next
  case False
  then show ?thesis
    by (auto simp: parse_call_method_name_def endswith_single)
qed

text \<open>
  The tokens of \<^verbatim>\<open>split\<close> are the pieces between the separators: no token holds the
  separator, and the tokens joined by the separator give the string back. The split is
  the plain one: a comma inside quotes or inside nested parentheses separates too.
\<close>

lemma split_not_empty: "split s c \<noteq> []"
  by (induction s) (auto split: list.splits)

lemma split_tokens: "t \<in> set (split s c) \<Longrightarrow> c \<notin> set t"
proof (induction s arbitrary: t)
  case Nil
  then show ?case by simp
next
  case (Cons x xs)
  show ?case
  proof (cases "x = c")
    case True
    with Cons show ?thesis by auto
  next
    case False
    obtain w ws where sp: "split xs c = w # ws"
      using split_not_empty[of xs c] by (cases "split xs c") auto
    with Cons.prems False have "t = x # w \<or> t \<in> set ws" by simp
    then show ?thesis
    proof
      assume "t = x # w"
      moreover have "c \<notin> set w" using Cons.IH[of w] sp by simp
      ultimately show ?thesis using False by auto
    next
      assume "t \<in> set ws"
      then show ?thesis using Cons.IH[of t] sp by simp
    qed
  qed
qed

lemma join_split: "join [c] (split s c) = s"
proof (induction s)
  case Nil
  then show ?case by simp
next
  case (Cons x xs)
  obtain w ws where sp: "split xs c = w # ws"
    using split_not_empty[of xs c] by (cases "split xs c") auto
  show ?case
  proof (cases "x = c")
    case True
    with Cons sp show ?thesis by simp
  next
    case False
    with Cons sp show ?thesis by (cases ws) auto
  qed
qed

text \<open>
  C5, as amended. A call expression that contains an opening parenthesis and ends with
  a closing parenthesis parses to the text before the first opening parenthesis and, for
  each piece of the plain comma split of the text between that parenthesis and the last
  character, the inner text when the piece is fully wrapped in matching single or double
  quotes, the empty string when the piece is one quote character alone, and \<^verbatim>\<open>None\<close>
  for any other piece; an empty parameter text gives no argument. Any other string
  parses to itself with no argument. In particular \<^verbatim>\<open>setName('Bob')\<close> gives
  \<^verbatim>\<open>setName\<close> with the argument \<^verbatim>\<open>Bob\<close>, \<^verbatim>\<open>increment\<close> gives \<^verbatim>\<open>increment\<close> with no
  argument, and \<^verbatim>\<open>setName()\<close> gives \<^verbatim>\<open>setName\<close> with no argument.
\<close>

theorem parse_call_method_name_amended:
  "parse_call_method_name s =
     (if CHR ''('' \<in> set s \<and> s \<noteq> [] \<and> last s = CHR '')''
      then (takeWhile (\<lambda>c. c \<noteq> CHR ''('') s,
            if arg_text s = [] then [] else map arg_value (split (arg_text s) (CHR '','')))
      else (s, []))
   \<and> parse_call_method_name ''setName('Bob')'' = (''setName'', [PStr ''Bob''])
   \<and> parse_call_method_name ''increment'' = (''increment'', [])
   \<and> parse_call_method_name ''setName()'' = (''setName'', [])"
proof -
  have e1: "parse_call_method_name ''setName('Bob')'' = (''setName'', [PStr ''Bob''])"
    unfolding parse_call_method_name_eq
    by (simp add: arg_text_def strip_ends_def arg_value_def fully_wrapped_def)
  have e2: "parse_call_method_name ''increment'' = (''increment'', [])"
    unfolding parse_call_method_name_eq by simp
  have e3: "parse_call_method_name ''setName()'' = (''setName'', [])"
    unfolding parse_call_method_name_eq by (simp add: arg_text_def strip_ends_def)
  from parse_call_method_name_eq e1 e2 e3 show ?thesis by blast
qed

text \<open>
  C5 as stated fails on a piece that is one quote character alone. Such a piece is not
  fully wrapped in matching quotes, so the claim gives \<^verbatim>\<open>None\<close> for it; \<^verbatim>\<open>_handle_arg\<close>
  finds that it starts with a quote and ends with a quote and returns the empty string.
\<close>

theorem parse_lone_quote_counterexample:
  "\<not> fully_wrapped [CHR 0x27] \<and> parse_call_method_name ''f(')'' = (''f'', [PStr []])"
  unfolding parse_call_method_name_eq
  by (simp add: arg_text_def strip_ends_def arg_value_def fully_wrapped_def)

section \<open>Properties of the request\<close>

lemma py_get_dict: "py_get (PDict b) k = Inr (case map_of b k of None \<Rightarrow> PNone | Some v \<Rightarrow> v)"
  by (simp add: py_get_def split: option.splits)

text \<open>
  The limit is sharp: lists inside one another are serialized as long as the innermost
  has fewer containers around it than the limit, and are refused from there on.
\<close>

lemma dumps_at_nest_ok:
  "n + k < dumps_recursion_limit E
     \<Longrightarrow> dumps_at E n (nest k) = Inr (replicate (Suc k) (CHR ''['') @ replicate (Suc k) (CHR '']''))"
proof (induction k arbitrary: n)
  case 0
  then show ?case by simp
next
  case (Suc k)
  then have "dumps_at E (Suc n) (nest k)
      = Inr (replicate (Suc k) (CHR ''['') @ replicate (Suc k) (CHR '']''))" by simp
  moreover from Suc.prems have "\<not> dumps_recursion_limit E \<le> n" by simp
  ultimately show ?case by (simp add: replicate_append_same)
qed

lemma dumps_at_nest:
  "dumps_recursion_limit E \<le> n + k \<Longrightarrow> dumps_at E n (nest k) = Inl TypeError"
proof (induction k arbitrary: n)
  case 0
  then show ?case by simp
next
  case (Suc k)
  then have "dumps_at E (Suc n) (nest k) = Inl TypeError" by simp
  then show ?case by simp
qed

text \<open>
  Whatever the serializer refuses, it refuses with a \<^verbatim>\<open>TypeError\<close>.
\<close>

lemma sequence_Inl: "sequence rs = Inl e \<Longrightarrow> Inl e \<in> set rs"
proof (induction rs rule: sequence.induct)
  case 1
  then show ?case by simp
next
  case (2 e' rs)
  then show ?case by simp
next
  case (3 x rs)
  then show ?case by (cases "sequence rs") auto
qed

lemma dumps_at_error: "dumps_at E n v = Inl e \<Longrightarrow> e = TypeError"
proof (induction E n v rule: dumps_at.induct)
  case (6 E n xs)
  show ?case
  proof (cases "dumps_recursion_limit E \<le> n")
    case True
    with "6.prems" show ?thesis by simp
  next
    case False
    with "6.prems" have "sequence (map (dumps_at E (Suc n)) xs) = Inl e"
      by (auto split: sum.splits)
    then have "Inl e \<in> set (map (dumps_at E (Suc n)) xs)" by (rule sequence_Inl)
    then obtain x where "x \<in> set xs" "dumps_at E (Suc n) x = Inl e" by auto
    with "6.IH" False show ?thesis by simp
  qed
next
  case (7 E n kvs)
  show ?case
  proof (cases "dumps_recursion_limit E \<le> n")
    case True
    with "7.prems" show ?thesis by simp
  next
    case False
    with "7.prems" have "sequence (map (\<lambda>(k, v). case dumps_at E (Suc n) v of
                                            Inl e \<Rightarrow> Inl e
                                          | Inr y \<Rightarrow> Inr (quote k @ '':'' @ y)) kvs) = Inl e"
      by (auto split: sum.splits)
    then have "Inl e \<in> set (map (\<lambda>(k, v). case dumps_at E (Suc n) v of
                                            Inl e \<Rightarrow> Inl e
                                          | Inr y \<Rightarrow> Inr (quote k @ '':'' @ y)) kvs)"
      by (rule sequence_Inl)
    then obtain k v where "(k, v) \<in> set kvs" "dumps_at E (Suc n) v = Inl e"
      by (auto split: sum.splits)
    with "7.IH" False show ?thesis by simp
  qed
qed (auto split: if_splits)

text \<open>
  C1, as amended. Let the short-UUID encoder return at least eight characters.
  For a state mapping that the serializer accepts, let \<open>bytes\<close> be its serialization
  and \<open>token\<close> the first eight characters of the short-UUID encoding of the hexadecimal
  HMAC-SHA256 digest of \<open>bytes\<close> under the secret; the token has eight characters.
  Then the validation of a request body succeeds if and only if the body's
  \<^verbatim>\<open>checksum\<close> is that string. A checksum that is missing or empty (falsy) raises the
  assertion error \<^verbatim>\<open>Missing checksum\<close>; any other checksum that differs from the token
  raises the assertion error \<^verbatim>\<open>Checksum does not match\<close>. (The source raises both as
  \<^verbatim>\<open>AssertionError\<close>; the message tells the validation error from the integrity error.)
  A state mapping that the serializer refuses, it refuses with a \<^verbatim>\<open>TypeError\<close>; then no
  token is accepted: a missing or falsy checksum raises \<^verbatim>\<open>Missing checksum\<close> as before,
  and every other checksum, whatever it is, raises that \<^verbatim>\<open>TypeError\<close>.
\<close>

theorem validate_checksum_token_amended:
  assumes "\<forall>h. 8 \<le> length (shortuuid_uuid E h)"
  shows "(\<forall>bytes token.
            orjson_dumps E data_arg = Inr bytes
            \<and> token = take 8 (shortuuid_uuid E (hmac_sha256_hexdigest E (secret_key E) bytes))
          \<longrightarrow> length token = 8
              \<and> (validate_checksum E (PDict b) data_arg = Inr ()
                   \<longleftrightarrow> map_of b ''checksum'' = Some (PStr token))
              \<and> ((map_of b ''checksum'' = None \<or> (\<exists>c. map_of b ''checksum'' = Some c \<and> \<not> truthy c))
                   \<longrightarrow> validate_checksum E (PDict b) data_arg = Inl (AssertionError ''Missing checksum''))
              \<and> (\<forall>c. map_of b ''checksum'' = Some c \<and> truthy c \<and> c \<noteq> PStr token
                   \<longrightarrow> validate_checksum E (PDict b) data_arg
                         = Inl (AssertionError ''Checksum does not match'')))
     \<and> (\<forall>e. orjson_dumps E data_arg = Inl e
          \<longrightarrow> e = TypeError
              \<and> validate_checksum E (PDict b) data_arg \<noteq> Inr ()
              \<and> ((map_of b ''checksum'' = None \<or> (\<exists>c. map_of b ''checksum'' = Some c \<and> \<not> truthy c))
                   \<longrightarrow> validate_checksum E (PDict b) data_arg = Inl (AssertionError ''Missing checksum''))
              \<and> (\<forall>c. map_of b ''checksum'' = Some c \<and> truthy c
                   \<longrightarrow> validate_checksum E (PDict b) data_arg = Inl TypeError))"
proof (intro conjI allI impI)
  fix bytes token
  assume a: "orjson_dumps E data_arg = Inr bytes
            \<and> token = take 8 (shortuuid_uuid E (hmac_sha256_hexdigest E (secret_key E) bytes))"
  have "8 \<le> length (shortuuid_uuid E (hmac_sha256_hexdigest E (secret_key E) bytes))"
    using assms by blast
  with a show len: "length token = 8" by simp
  then have ne: "truthy (PStr token)" by auto
  have gen: "generated_checksum E data_arg = Inr token"
    using a by (simp add: generated_checksum_def)
  show "validate_checksum E (PDict b) data_arg = Inr ()
          \<longleftrightarrow> map_of b ''checksum'' = Some (PStr token)"
    using ne gen by (auto simp: validate_checksum_def py_get_dict split: option.splits)
  show "validate_checksum E (PDict b) data_arg = Inl (AssertionError ''Missing checksum'')"
    if "map_of b ''checksum'' = None \<or> (\<exists>c. map_of b ''checksum'' = Some c \<and> \<not> truthy c)"
    using that by (auto simp: validate_checksum_def py_get_dict)
  show "validate_checksum E (PDict b) data_arg = Inl (AssertionError ''Checksum does not match'')"
    if "map_of b ''checksum'' = Some c \<and> truthy c \<and> c \<noteq> PStr token" for c
    using that gen by (auto simp: validate_checksum_def py_get_dict)
next
  fix e
  assume a: "orjson_dumps E data_arg = Inl e"
  then show e: "e = TypeError"
    unfolding orjson_dumps_def by (rule dumps_at_error)
  with a have gen: "generated_checksum E data_arg = Inl TypeError"
    by (simp add: generated_checksum_def)
  show "validate_checksum E (PDict b) data_arg \<noteq> Inr ()"
    using gen by (auto simp: validate_checksum_def py_get_dict split: option.splits)
  show "validate_checksum E (PDict b) data_arg = Inl (AssertionError ''Missing checksum'')"
    if "map_of b ''checksum'' = None \<or> (\<exists>c. map_of b ''checksum'' = Some c \<and> \<not> truthy c)"
    using that by (auto simp: validate_checksum_def py_get_dict)
  show "validate_checksum E (PDict b) data_arg = Inl TypeError"
    if "map_of b ''checksum'' = Some c \<and> truthy c" for c
    using that gen by (auto simp: validate_checksum_def py_get_dict)
qed

text \<open>
  The theorem at the sample environment. For the state \<^verbatim>\<open>{"name": "World"}\<close> the right
  token is accepted, an empty one is missing, a wrong one does not match. For a state
  that holds 261 lists inside one another an empty token is missing, and the token that
  was right for the first state raises the serializer's \<^verbatim>\<open>TypeError\<close>.
\<close>

theorem validate_checksum_token_amended_witness:
  \<open>(\<forall>h. 8 \<le> length (shortuuid_uuid sample_env h))
   \<and> orjson_dumps sample_env (PDict [(''name'', PStr ''World'')]) = Inr ''{"name":"World"}''
   \<and> validate_checksum sample_env (PDict [(''checksum'', PStr ''7b226e61'')])
        (PDict [(''name'', PStr ''World'')]) = Inr ()
   \<and> validate_checksum sample_env (PDict [(''checksum'', PStr [])])
        (PDict [(''name'', PStr ''World'')]) = Inl (AssertionError ''Missing checksum'')
   \<and> validate_checksum sample_env (PDict [(''checksum'', PStr ''7b226e62'')])
        (PDict [(''name'', PStr ''World'')]) = Inl (AssertionError ''Checksum does not match'')
   \<and> orjson_dumps sample_env (PDict [(''name'', nest 260)]) = Inl TypeError
   \<and> validate_checksum sample_env (PDict [(''checksum'', PStr [])])
        (PDict [(''name'', nest 260)]) = Inl (AssertionError ''Missing checksum'')
   \<and> validate_checksum sample_env (PDict [(''checksum'', PStr ''7b226e61'')])
        (PDict [(''name'', nest 260)]) = Inl TypeError\<close>
proof -
  have l: "dumps_recursion_limit sample_env = 254"
    by (simp add: sample_env_def)
  have d: \<open>orjson_dumps sample_env (PDict [(''name'', PStr ''World'')]) = Inr ''{"name":"World"}''\<close>
    by (simp add: orjson_dumps_def l quote_def escape_char_def)
  have n: "dumps_at sample_env (Suc 0) (nest 260) = Inl TypeError"
    by (rule dumps_at_nest) (simp add: l)
  have f: "orjson_dumps sample_env (PDict [(''name'', nest 260)]) = Inl TypeError"
    by (simp add: orjson_dumps_def l n)
  have u: "\<forall>h. 8 \<le> length (shortuuid_uuid sample_env h)"
    by (auto simp: sample_env_def sample_uuid_def min_def)
  have t: \<open>''7b226e61'' = take 8 (shortuuid_uuid sample_env
              (hmac_sha256_hexdigest sample_env (secret_key sample_env) ''{"name":"World"}''))\<close>
    by (simp add: sample_env_def sample_uuid_def sample_hmac_def hex_byte_def hex_digit_def)
  note ok = validate_checksum_token_amended
    [OF u, THEN conjunct1, rule_format, OF conjI, OF d t]
  note ko = validate_checksum_token_amended
    [OF u, THEN conjunct2, rule_format, OF f]
  have 1: "validate_checksum sample_env (PDict [(''checksum'', PStr ''7b226e61'')])
        (PDict [(''name'', PStr ''World'')]) = Inr ()"
    using ok [of "[(''checksum'', PStr ''7b226e61'')]"] by simp
  have 2: "validate_checksum sample_env (PDict [(''checksum'', PStr [])])
        (PDict [(''name'', PStr ''World'')]) = Inl (AssertionError ''Missing checksum'')"
    using ok [of "[(''checksum'', PStr [])]"] by simp
  have 3: "validate_checksum sample_env (PDict [(''checksum'', PStr ''7b226e62'')])
        (PDict [(''name'', PStr ''World'')]) = Inl (AssertionError ''Checksum does not match'')"
    using ok [of "[(''checksum'', PStr ''7b226e62'')]"] by simp
  have 4: "validate_checksum sample_env (PDict [(''checksum'', PStr [])])
        (PDict [(''name'', nest 260)]) = Inl (AssertionError ''Missing checksum'')"
    using ko [of "[(''checksum'', PStr [])]"] by simp
  have 5: "validate_checksum sample_env (PDict [(''checksum'', PStr ''7b226e61'')])
        (PDict [(''name'', nest 260)]) = Inl TypeError"
    using ko [of "[(''checksum'', PStr ''7b226e61'')]"] by simp
  from u d f 1 2 3 4 5 show ?thesis by blast
qed

text \<open>
  C1 as stated fails for a state mapping that is nested deeper than the serializer goes:
  for \<^verbatim>\<open>{"a": [[...]]}\<close> with 301 lists inside one another the validation neither
  succeeds nor raises \<^verbatim>\<open>Checksum does not match\<close>, whatever the token is; the
  \<^verbatim>\<open>TypeError\<close> of \<^verbatim>\<open>orjson.dumps\<close> leaves the function.
\<close>

theorem deep_state_counterexample:
  "orjson_dumps sample_env (PDict [(''a'', nest 300)]) = Inl TypeError
   \<and> validate_checksum sample_env (PDict [(''checksum'', PStr ''7b226e61'')])
        (PDict [(''a'', nest 300)]) = Inl TypeError
   \<and> validate_checksum sample_env (PDict [(''checksum'', PStr ''x'')])
        (PDict [(''a'', nest 300)]) = Inl TypeError"
proof -
  have l: "dumps_recursion_limit sample_env = 254"
    by (simp add: sample_env_def)
  have n: "dumps_at sample_env (Suc 0) (nest 300) = Inl TypeError"
    by (rule dumps_at_nest) (simp add: l)
  have d: "orjson_dumps sample_env (PDict [(''a'', nest 300)]) = Inl TypeError"
    by (simp add: orjson_dumps_def l n)
  then have g: "generated_checksum sample_env (PDict [(''a'', nest 300)]) = Inl TypeError"
    by (simp add: generated_checksum_def)
  from d g show ?thesis
    by (simp add: validate_checksum_def py_get_dict)
qed


lemma sample_loads_simps:
  "loads sample_env body_text_queue = Some body_queue"
  "loads sample_env body_text_empty_data = Some body_empty_data"
  "loads sample_env body_text_no_data = Some body_no_data"
  "loads sample_env body_text_no_id = Some body_no_id"
  "loads sample_env ''{}'' = Some (PDict [])"
  "loads sample_env ''null'' = Some PNone"
  "loads sample_env ''{'' = None"
  by (simp_all add: sample_env_def sample_loads_def body_text_queue_def body_text_empty_data_def
      body_text_no_data_def body_text_no_id_def)



text \<open>
  C9, as amended. For every request with a non-empty component name whose body does not
  decode, building the request raises \<^verbatim>\<open>UnicornViewError("Body could not be parsed")\<close>,
  the view answers \<^verbatim>\<open>{"error": "Body could not be parsed"}\<close>, and the request ends
  without a component instance: none was created, none was changed, no action ran.
\<close>

theorem unparseable_body_amended:
  "loads E raw = None \<and> name \<noteq> [] \<longrightarrow>
     component_request_init E raw = Inl (UnicornViewError ''Body could not be parsed'')
     \<and> message E raw (Some name) =
         (Inr (JsonResponse (PDict [(''error'', PStr ''Body could not be parsed'')])), None)"
  by (simp add: message_def message_view_def component_request_init_def)

theorem unparseable_body_amended_witness:
  "loads sample_env ''{'' = None
   \<and> message sample_env ''{'' (Some ''hello-world'') =
         (Inr (JsonResponse (PDict [(''error'', PStr ''Body could not be parsed'')])), None)"
  using unparseable_body_amended [of sample_env "''{''" "''hello-world''"]
  by (simp add: sample_loads_simps)

text \<open>
  C9 as stated fails for a request without a component name: the view asserts the name
  before it reads the body, so the answer is \<^verbatim>\<open>Missing component name in url\<close> although
  the body does not decode.
\<close>

theorem unparseable_body_counterexample:
  "loads sample_env ''{'' = None
   \<and> message sample_env ''{'' None =
         (Inr (JsonResponse (PDict [(''error'', PStr ''Missing component name in url'')])), None)"
  by (simp add: sample_loads_simps message_def message_view_def)

section \<open>Properties of the actions\<close>

text \<open>
  C10. A \<^verbatim>\<open>syncInput\<close> action whose payload has no \<^verbatim>\<open>value\<close> or a null one, or no
  \<^verbatim>\<open>name\<close> or a null one, leaves the component and the \<^verbatim>\<open>data\<close> dictionary as they
  are and raises nothing, whether or not the name is a path that exists: no property can
  be set to \<^verbatim>\<open>None\<close> through \<^verbatim>\<open>syncInput\<close>.
\<close>

theorem sync_input_null_is_noop:
  "(map_of p ''name'' = None \<or> map_of p ''name'' = Some PNone
      \<or> map_of p ''value'' = None \<or> map_of p ''value'' = Some PNone)
   \<longrightarrow> set_property_from_payload E component (PDict p) data_arg = (None, component, data_arg)
       \<and> (map_of a ''type'' = Some (PStr ''syncInput'') \<and> map_of a ''payload'' = Some (PDict p)
            \<longrightarrow> apply_action E component_id component_name (PDict a) (component, data_arg)
                  = (None, component, data_arg))"
  by (auto simp: set_property_from_payload_def apply_action_def py_get_dict)

theorem sync_input_null_is_noop_witness:
  "map_of [(''name'', PStr ''name''), (''value'', PNone)] ''value'' = Some PNone
   \<and> apply_action sample_env (PStr ''c1'') ''hello-world''
        (PDict [(''type'', PStr ''syncInput''),
                (''payload'', PDict [(''name'', PStr ''name''), (''value'', PNone)])])
        (sample_component, PDict [(''name'', PStr ''World'')])
      = (None, sample_component, PDict [(''name'', PStr ''World'')])"
  using sync_input_null_is_noop
    [of "[(''name'', PStr ''name''), (''value'', PNone)]" sample_env sample_component
        "PDict [(''name'', PStr ''World'')]"
        "[(''type'', PStr ''syncInput''),
          (''payload'', PDict [(''name'', PStr ''name''), (''value'', PNone)])]"
        "PStr ''c1''" "''hello-world''"]
  by simp

text \<open>
  The queue is processed from the left, and the first exception ends it: the actions
  after it never run, and the state is the one the failing action left.
\<close>

lemma process_actions_append:
  "process_actions E i n (xs @ ys) st =
     (case process_actions E i n xs st of
        (Some e, st') \<Rightarrow> (Some e, st')
      | (None, st') \<Rightarrow> process_actions E i n ys st')"
  by (induction xs arbitrary: st) (auto split: prod.splits option.splits)

lemma apply_action_reset:
  assumes "map_of a ''type'' = Some (PStr ''callMethod'')"
    and "map_of a ''payload'' = Some (PDict p)"
    and "map_of p ''name'' = Some (PStr name)"
    and "name = ''reset'' \<or> name = ''reset()''"
  shows "apply_action E cid cname (PDict a) st =
     (case create E cid cname True of
        Inl e \<Rightarrow> (Some e, st)
      | Inr fresh \<Rightarrow> (None, fresh, PDict (attributes E fresh)))"
  using assms
  by (cases st) (auto simp: apply_action_def call_method_action_def py_get_dict split: sum.splits)

text \<open>
  C6. Let the actions before a \<^verbatim>\<open>callMethod\<close> action named \<^verbatim>\<open>reset\<close> or \<^verbatim>\<open>reset()\<close> run
  without an exception, and let the factory, called for the same component id and name
  with \<^verbatim>\<open>skip_cache=True\<close>, return the instance \<open>fresh\<close>. Then the reset action replaces
  the component by \<open>fresh\<close> and the \<^verbatim>\<open>data\<close> dictionary by the attributes of \<open>fresh\<close>,
  whatever the earlier actions made of either, and the rest of the queue runs from that
  state.
\<close>

theorem reset_replaces_snapshot:
  assumes "process_actions E cid cname pre st0 = (None, st1)"
    and "create E cid cname True = Inr fresh"
    and "map_of a ''type'' = Some (PStr ''callMethod'')"
    and "map_of a ''payload'' = Some (PDict p)"
    and "map_of p ''name'' = Some (PStr name)"
    and "name = ''reset'' \<or> name = ''reset()''"
  shows "apply_action E cid cname (PDict a) st1 = (None, fresh, PDict (attributes E fresh))
     \<and> process_actions E cid cname (pre @ [PDict a]) st0 = (None, fresh, PDict (attributes E fresh))
     \<and> process_actions E cid cname (pre @ PDict a # post) st0 =
         process_actions E cid cname post (fresh, PDict (attributes E fresh))"
proof -
  have step: "apply_action E cid cname (PDict a) st1 = (None, fresh, PDict (attributes E fresh))"
    using apply_action_reset [OF assms(3-6), of E cid cname st1] assms(2) by simp
  then show ?thesis
    using assms(1) by (simp add: process_actions_append)
qed

lemma sample_sync_name:
  "apply_action sample_env cid cname (sync_input ''name'' v)
     (sample_component, PDict [(''name'', PStr ''World'')])
   = (if v = PNone then (None, sample_component, PDict [(''name'', PStr ''World'')])
      else (None, put_attr sample_component ''name'' v, PDict [(''name'', v)]))"
  by (simp add: sync_input_def apply_action_def set_property_from_payload_def py_get_dict
      sample_component_def)

text \<open>
  The theorem at the sample environment: the queue sets \<^verbatim>\<open>name\<close> to \<^verbatim>\<open>Moon\<close> and then
  resets; the component and the data are those of a new instance.
\<close>

theorem reset_replaces_snapshot_witness:
  "process_actions sample_env (PStr ''c1'') ''hello-world''
     [sync_input ''name'' (PStr ''Moon''), call_method ''reset()'']
     (sample_component, PDict [(''name'', PStr ''World'')])
   = (None, sample_component, PDict (attributes sample_env sample_component))
   \<and> attributes sample_env sample_component =
       [(''name'', PStr ''World''),
        (''author'', PObj UnicornField [(''name'', PStr ''Neil'')]),
        (''flavors'', PDict [(''first'', PStr ''vanilla'')])]"
proof -
  have pre: "process_actions sample_env (PStr ''c1'') ''hello-world'' [sync_input ''name'' (PStr ''Moon'')]
               (sample_component, PDict [(''name'', PStr ''World'')])
             = (None, put_attr sample_component ''name'' (PStr ''Moon''), PDict [(''name'', PStr ''Moon'')])"
    by (simp add: sample_sync_name)
  have cr: "create sample_env (PStr ''c1'') ''hello-world'' True = Inr sample_component"
    by (simp add: sample_env_def)
  have at: "attributes sample_env sample_component =
       [(''name'', PStr ''World''),
        (''author'', PObj UnicornField [(''name'', PStr ''Neil'')]),
        (''flavors'', PDict [(''first'', PStr ''vanilla'')])]"
    by (simp add: sample_env_def sample_component_def)
  from reset_replaces_snapshot
    [OF pre cr, of "[(''type'', PStr ''callMethod''), (''payload'', PDict [(''name'', PStr ''reset()'')])]"
       "[(''name'', PStr ''reset()'')]" "''reset()''"] at
  show ?thesis by (simp add: call_method_def)
qed

lemma apply_action_unknown:
  assumes "t = (case map_of a ''type'' of None \<Rightarrow> PNone | Some v \<Rightarrow> v)"
    and "t \<noteq> PStr ''syncInput''" and "t \<noteq> PStr ''callMethod''"
  shows "apply_action E cid cname (PDict a) st =
     (Some (UnicornViewError (''Unknown action_type '' @ [CHR 0x27] @ py_str E t @ [CHR 0x27])), st)"
  using assms
  by (auto simp: apply_action_def py_get_dict split: option.splits sum.splits)

text \<open>
  C7. Let the actions before an action whose \<^verbatim>\<open>type\<close> \<open>t\<close> (\<^verbatim>\<open>None\<close> when the action has
  no type) is neither \<^verbatim>\<open>syncInput\<close> nor \<^verbatim>\<open>callMethod\<close> run without an exception and
  leave the component \<open>c2\<close> and the data \<open>d2\<close>. Then processing the queue raises
  \<^verbatim>\<open>UnicornViewError\<close> with the message \<^verbatim>\<open>Unknown action_type 't'\<close> at that action, in the
  state \<open>(c2, d2)\<close>: what the earlier actions did stays, and no later action runs. For a
  request that reaches the queue, the view's answer is the error payload with that
  message, and the instance the request leaves is \<open>c2\<close>.
\<close>

theorem unknown_action_aborts:
  assumes "process_actions E cid cname pre st0 = (None, c2, d2)"
    and "t = (case map_of a ''type'' of None \<Rightarrow> PNone | Some v \<Rightarrow> v)"
    and "t \<noteq> PStr ''syncInput''" and "t \<noteq> PStr ''callMethod''"
    and "msg = ''Unknown action_type '' @ [CHR 0x27] @ py_str E t @ [CHR 0x27]"
  shows "process_actions E cid cname (pre @ PDict a # post) st0 = (Some (UnicornViewError msg), c2, d2)
     \<and> (cname \<noteq> [] \<and> component_request_init E raw = Inr rq \<and> rq_id rq = cid
          \<and> create E cid cname False = Inr c0
          \<and> py_items (rq_data rq) = Inr items \<and> hydrate E c0 items = (None, c1)
          \<and> py_iter (rq_action_queue rq) = Inr (pre @ PDict a # post)
          \<and> st0 = (c1, rq_data rq)
        \<longrightarrow> message E raw (Some cname) =
              (Inr (JsonResponse (PDict [(''error'', PStr msg)])), Some c2))"
proof -
  have bad: "apply_action E cid cname (PDict a) (c2, d2) = (Some (UnicornViewError msg), c2, d2)"
    using apply_action_unknown [OF assms(2-4)] assms(5) by simp
  have run: "process_actions E cid cname (pre @ PDict a # post) st0 = (Some (UnicornViewError msg), c2, d2)"
    using assms(1) bad by (simp add: process_actions_append)
  show ?thesis
  proof (intro conjI impI)
    show "process_actions E cid cname (pre @ PDict a # post) st0 = (Some (UnicornViewError msg), c2, d2)"
      by (rule run)
  next
    assume h: "cname \<noteq> [] \<and> component_request_init E raw = Inr rq \<and> rq_id rq = cid
          \<and> create E cid cname False = Inr c0
          \<and> py_items (rq_data rq) = Inr items \<and> hydrate E c0 items = (None, c1)
          \<and> py_iter (rq_action_queue rq) = Inr (pre @ PDict a # post)
          \<and> st0 = (c1, rq_data rq)"
    then have "message_view E raw (Some cname) = (Inl (UnicornViewError msg), Some c2)"
      using run by (simp add: message_view_def)
    then show "message E raw (Some cname) =
              (Inr (JsonResponse (PDict [(''error'', PStr msg)])), Some c2)"
      by (simp add: message_def)
  qed
qed

lemma sample_checksum_queue:
  "validate_checksum sample_env body_queue (PDict [(''name'', PStr ''World'')]) = Inr ()"
  by (simp add: validate_checksum_def py_get_dict generated_checksum_def orjson_dumps_def
      body_queue_def quote_def escape_char_def
      sample_env_def sample_uuid_def sample_hmac_def hex_byte_def hex_digit_def)

lemma sample_request_queue:
  "component_request_init sample_env body_text_queue =
     Inr \<lparr>rq_body = body_queue, rq_data = PDict [(''name'', PStr ''World'')], rq_id = PStr ''c1'',
          rq_action_queue = PList [sync_input ''name'' (PStr ''Moon''),
                                   PDict [(''type'', PStr ''launch''), (''payload'', PDict [])],
                                   sync_input ''name'' (PStr ''Sun'')]\<rparr>"
proof -
  have b: "truthy body_queue" "py_get body_queue ''data'' = Inr (PDict [(''name'', PStr ''World'')])"
    "py_get body_queue ''id'' = Inr (PStr ''c1'')"
    "py_get_default body_queue ''actionQueue'' (PList []) =
       Inr (PList [sync_input ''name'' (PStr ''Moon''),
                   PDict [(''type'', PStr ''launch''), (''payload'', PDict [])],
                   sync_input ''name'' (PStr ''Sun'')])"
    by (simp_all add: body_queue_def py_get_dict sync_input_def)
  show ?thesis
    by (simp add: component_request_init_def sample_loads_simps b sample_checksum_queue)
qed

text \<open>
  The theorem at the sample environment, for the request whose queue sets \<^verbatim>\<open>name\<close> to
  \<^verbatim>\<open>Moon\<close>, then holds an action of type \<^verbatim>\<open>launch\<close>, then sets \<^verbatim>\<open>name\<close> to \<^verbatim>\<open>Sun\<close>: the
  answer is the error, and the component is left with the name \<^verbatim>\<open>Moon\<close>.
\<close>

theorem unknown_action_aborts_witness:
  "message sample_env body_text_queue (Some ''hello-world'') =
     (Inr (JsonResponse (PDict [(''error'',
             PStr (''Unknown action_type '' @ [CHR 0x27] @ ''launch'' @ [CHR 0x27]))])),
      Some (PObj UnicornView
             [(''name'', PStr ''Moon''),
              (''author'', PObj UnicornField [(''name'', PStr ''Neil'')]),
              (''flavors'', PDict [(''first'', PStr ''vanilla'')]),
              (''set_name'', PCallable ''set_name'')]))"
proof -
  let ?rq = "\<lparr>rq_body = body_queue, rq_data = PDict [(''name'', PStr ''World'')], rq_id = PStr ''c1'',
          rq_action_queue = PList [sync_input ''name'' (PStr ''Moon''),
                                   PDict [(''type'', PStr ''launch''), (''payload'', PDict [])],
                                   sync_input ''name'' (PStr ''Sun'')]\<rparr>"
  let ?moon = "PObj UnicornView
             [(''name'', PStr ''Moon''),
              (''author'', PObj UnicornField [(''name'', PStr ''Neil'')]),
              (''flavors'', PDict [(''first'', PStr ''vanilla'')]),
              (''set_name'', PCallable ''set_name'')]"
  have pre: "process_actions sample_env (PStr ''c1'') ''hello-world'' [sync_input ''name'' (PStr ''Moon'')]
               (sample_component, PDict [(''name'', PStr ''World'')])
             = (None, ?moon, PDict [(''name'', PStr ''Moon'')])"
    by (simp add: sample_sync_name) (simp add: sample_component_def)
  have t: "PStr ''launch'' = (case map_of [(''type'', PStr ''launch''), (''payload'', PDict [])] ''type'' of
                               None \<Rightarrow> PNone | Some v \<Rightarrow> v)"
    by simp
  have msg: "''Unknown action_type '' @ [CHR 0x27] @ ''launch'' @ [CHR 0x27]
             = ''Unknown action_type '' @ [CHR 0x27] @ py_str sample_env (PStr ''launch'') @ [CHR 0x27]"
    by (simp add: py_str_def)
  have cr: "create sample_env (PStr ''c1'') ''hello-world'' False = Inr sample_component"
    by (simp add: sample_env_def)
  have hy: "hydrate sample_env sample_component [(''name'', PStr ''World'')] = (None, sample_component)"
    by (simp add: sample_component_def)
  from unknown_action_aborts
    [OF pre t _ _ msg, of "[sync_input ''name'' (PStr ''Sun'')]" body_text_queue ?rq sample_component
       "[(''name'', PStr ''World'')]" sample_component]
    sample_request_queue cr hy
  show ?thesis by simp
qed

text \<open>
  Where the code keeps to "missing means nothing happens": \<^verbatim>\<open>_set_property_from_data\<close>
  leaves a container alone that has no attribute of the name, and so does a
  \<^verbatim>\<open>callMethod\<close> action, other than the reset, for the name that is called (the text
  before the parenthesis) or assigned (the text before the equals sign).
\<close>

lemma set_property_from_data_missing:
  "\<not> hasattr E component_or_field name
     \<Longrightarrow> set_property_from_data E component_or_field name val = (None, component_or_field)"
  by simp

lemma split_two:
  "c \<in> set s \<Longrightarrow> \<exists>x y zs. split s c = x # y # zs"
proof (induction s)
  case Nil
  then show ?case by simp
next
  case (Cons a s)
  obtain w ws where sp: "split s c = w # ws"
    using split_not_empty[of s c] by (cases "split s c") auto
  show ?case
  proof (cases "a = c")
    case True
    with sp show ?thesis by simp
  next
    case False
    with Cons.prems have "c \<in> set s" by simp
    from Cons.IH[OF this] obtain x y zs where "split s c = x # y # zs" by blast
    with False show ?thesis by simp
  qed
qed

lemma call_method_missing:
  assumes "s \<noteq> ''reset''" "s \<noteq> ''reset()''"
    and "\<not> hasattr E component
            (if CHR ''='' \<in> set s then hd (split s (CHR ''='')) else fst (parse_call_method_name s))"
  shows "call_method_action E cid cname s (component, data_arg) = (None, component, data_arg)"
proof (cases "CHR ''='' \<in> set s")
  case True
  then obtain x y zs where sp: "split s (CHR ''='') = x # y # zs"
    using split_two by blast
  with True assms show ?thesis
    by (simp add: call_method_action_def)
next
  case False
  obtain m params where pr: "parse_call_method_name s = (m, params)"
    by (cases "parse_call_method_name s") auto
  with False assms show ?thesis
    by (simp add: call_method_action_def call_method_name_def)
qed

text \<open>
  Where it does not: in the loop of \<^verbatim>\<open>_set_property_from_payload\<close> a part that is not an
  attribute of a container that is no dictionary takes neither branch, and the loop goes
  on to the next part with the same container; and a part before the last that is
  addressed to a dictionary is read with \<^verbatim>\<open>d[k]\<close>, which raises for a key that is not
  there.
\<close>

lemma set_parts_skips_missing:
  "\<not> hasattr E component_or_field part \<Longrightarrow> \<not> is_dict component_or_field
     \<Longrightarrow> set_parts E (part # rest) property_value component_or_field data_or_dict
         = set_parts E rest property_value component_or_field data_or_dict"
  by simp

lemma set_parts_missing_key:
  "\<not> hasattr E (PDict kvs) part \<Longrightarrow> map_of kvs part = None \<Longrightarrow> rest \<noteq> []
     \<Longrightarrow> set_parts E (part # rest) property_value (PDict kvs) data_or_dict
         = (Some KeyError, PDict kvs, data_or_dict)"
  by simp

lemma sample_hasattr:
  "hasattr sample_env sample_component ''name''"
  "hasattr sample_env sample_component ''author''"
  "hasattr sample_env sample_component ''flavors''"
  "\<not> hasattr sample_env sample_component ''bogus''"
  "\<not> hasattr sample_env (PDict [(''first'', PStr ''vanilla'')]) ''second''"
  by (simp_all add: sample_component_def sample_env_def object_attrs_def view_attrs_def
      dict_attrs_def)

text \<open>
  C3 at the sample component, which has no attribute \<^verbatim>\<open>bogus\<close> and whose \<^verbatim>\<open>flavors\<close> have
  no key \<^verbatim>\<open>second\<close>. The action \<^verbatim>\<open>syncInput\<close> for \<^verbatim>\<open>bogus.name\<close> is no no-op: it sets
  \<^verbatim>\<open>name\<close> on the component and in \<^verbatim>\<open>data\<close>. The action \<^verbatim>\<open>syncInput\<close> for
  \<^verbatim>\<open>flavors.second.scoops\<close> is no no-op either: it raises \<^verbatim>\<open>KeyError\<close>, which
  \<^verbatim>\<open>handle_error\<close> lets through. The same missing names are a silent no-op on the other
  ways in: \<^verbatim>\<open>_set_property_from_data\<close> for \<^verbatim>\<open>bogus\<close>, and the \<^verbatim>\<open>callMethod\<close> actions
  \<^verbatim>\<open>bogus()\<close> and \<^verbatim>\<open>bogus=Moon\<close>.
\<close>

theorem missing_segment_not_noop:
  "\<not> hasattr sample_env sample_component ''bogus''
   \<and> apply_action sample_env (PStr ''c1'') ''hello-world''
        (sync_input ''bogus.name'' (PStr ''Moon'')) (sample_component, sample_data)
      = (None,
         PObj UnicornView
           [(''name'', PStr ''Moon''),
            (''author'', PObj UnicornField [(''name'', PStr ''Neil'')]),
            (''flavors'', PDict [(''first'', PStr ''vanilla'')]),
            (''set_name'', PCallable ''set_name'')],
         PDict [(''name'', PStr ''Moon''),
                (''author'', PDict [(''name'', PStr ''Neil'')]),
                (''flavors'', PDict [(''first'', PStr ''vanilla'')])])
   \<and> getattr sample_env sample_component ''flavors'' = Inr (PDict [(''first'', PStr ''vanilla'')])
   \<and> \<not> hasattr sample_env (PDict [(''first'', PStr ''vanilla'')]) ''second''
   \<and> getitem (PDict [(''first'', PStr ''vanilla'')]) ''second'' = Inl KeyError
   \<and> apply_action sample_env (PStr ''c1'') ''hello-world''
        (sync_input ''flavors.second.scoops'' (PInt 2)) (sample_component, sample_data)
      = (Some KeyError, sample_component, sample_data)
   \<and> handle_error (Inl KeyError) = Inl KeyError
   \<and> set_property_from_data sample_env sample_component ''bogus'' (PStr ''Moon'')
      = (None, sample_component)
   \<and> apply_action sample_env (PStr ''c1'') ''hello-world''
        (call_method ''bogus()'') (sample_component, sample_data)
      = (None, sample_component, sample_data)
   \<and> apply_action sample_env (PStr ''c1'') ''hello-world''
        (call_method ''bogus=Moon'') (sample_component, sample_data)
      = (None, sample_component, sample_data)"
proof -
  have nd: "\<not> is_dict sample_component"
    by (simp add: sample_component_def)
  have gf: "getattr sample_env sample_component ''flavors'' = Inr (PDict [(''first'', PStr ''vanilla'')])"
    by (simp add: sample_component_def)
  have sp1: "split ''bogus.name'' (CHR ''.'') = [''bogus'', ''name'']"
    by simp
  have sp2: "split ''flavors.second.scoops'' (CHR ''.'') = [''flavors'', ''second'', ''scoops'']"
    by simp
  have 1: "apply_action sample_env (PStr ''c1'') ''hello-world''
        (sync_input ''bogus.name'' (PStr ''Moon'')) (sample_component, sample_data)
      = (None,
         PObj UnicornView
           [(''name'', PStr ''Moon''),
            (''author'', PObj UnicornField [(''name'', PStr ''Neil'')]),
            (''flavors'', PDict [(''first'', PStr ''vanilla'')]),
            (''set_name'', PCallable ''set_name'')],
         PDict [(''name'', PStr ''Moon''),
                (''author'', PDict [(''name'', PStr ''Neil'')]),
                (''flavors'', PDict [(''first'', PStr ''vanilla'')])])"
    unfolding apply_action_def sync_input_def
    by (simp add: py_get_dict set_property_from_payload_def sp1
          set_parts_skips_missing [OF sample_hasattr(4) nd] del: set_parts.simps)
       (simp add: sample_component_def sample_data_def)
  have 2: "apply_action sample_env (PStr ''c1'') ''hello-world''
        (sync_input ''flavors.second.scoops'' (PInt 2)) (sample_component, sample_data)
      = (Some KeyError, sample_component, sample_data)"
    unfolding apply_action_def sync_input_def
    by (simp add: py_get_dict set_property_from_payload_def sp2 sample_hasattr gf
          set_parts_missing_key [OF sample_hasattr(5)])
       (simp add: sample_component_def sample_data_def sample_env_def dict_attrs_def)
  have 3: "set_property_from_data sample_env sample_component ''bogus'' (PStr ''Moon'')
      = (None, sample_component)"
    using sample_hasattr(4) by (rule set_property_from_data_missing)
  have p: "parse_call_method_name ''bogus()'' = (''bogus'', [])"
    by (simp add: parse_call_method_name_eq arg_text_def strip_ends_def)
  have 4: "call_method_action sample_env (PStr ''c1'') ''hello-world'' ''bogus()''
        (sample_component, sample_data) = (None, sample_component, sample_data)"
    by (rule call_method_missing) (simp_all add: p sample_hasattr)
  have 5: "call_method_action sample_env (PStr ''c1'') ''hello-world'' ''bogus=Moon''
        (sample_component, sample_data) = (None, sample_component, sample_data)"
    by (rule call_method_missing) (simp_all add: sample_hasattr)
  from 4 have 6: "apply_action sample_env (PStr ''c1'') ''hello-world''
        (call_method ''bogus()'') (sample_component, sample_data)
      = (None, sample_component, sample_data)"
    by (simp add: apply_action_def call_method_def py_get_dict)
  from 5 have 7: "apply_action sample_env (PStr ''c1'') ''hello-world''
        (call_method ''bogus=Moon'') (sample_component, sample_data)
      = (None, sample_component, sample_data)"
    by (simp add: apply_action_def call_method_def py_get_dict)
  from 1 2 3 6 7 gf sample_hasattr(4,5) show ?thesis by simp
qed

text \<open>
  C4 at the claim's own example. When \<^verbatim>\<open>data\<close> holds a dictionary under \<^verbatim>\<open>author\<close>, the
  action sets \<^verbatim>\<open>component.author.name\<close> and the entry of \<^verbatim>\<open>data\<close>. When \<^verbatim>\<open>data\<close> has no
  \<^verbatim>\<open>author\<close>, the component is set all the same, but \<^verbatim>\<open>data\<close> stays empty: the dictionary
  that \<^verbatim>\<open>data_or_dict.get(part, {})\<close> makes up is written to and then dropped, it is never
  stored in \<^verbatim>\<open>data\<close>.
\<close>

theorem nested_sync_input_snapshot:
  "apply_action sample_env (PStr ''c1'') ''hello-world''
      (sync_input ''author.name'' (PStr ''Neil Gaiman'')) (sample_component, sample_data)
    = (None,
       PObj UnicornView
         [(''name'', PStr ''World''),
          (''author'', PObj UnicornField [(''name'', PStr ''Neil Gaiman'')]),
          (''flavors'', PDict [(''first'', PStr ''vanilla'')]),
          (''set_name'', PCallable ''set_name'')],
       PDict [(''name'', PStr ''World''),
              (''author'', PDict [(''name'', PStr ''Neil Gaiman'')]),
              (''flavors'', PDict [(''first'', PStr ''vanilla'')])])
   \<and> apply_action sample_env (PStr ''c1'') ''hello-world''
      (sync_input ''author.name'' (PStr ''Neil Gaiman'')) (sample_component, PDict [])
    = (None,
       PObj UnicornView
         [(''name'', PStr ''World''),
          (''author'', PObj UnicornField [(''name'', PStr ''Neil Gaiman'')]),
          (''flavors'', PDict [(''first'', PStr ''vanilla'')]),
          (''set_name'', PCallable ''set_name'')],
       PDict [])"
  by (simp add: apply_action_def sync_input_def py_get_dict set_property_from_payload_def
      sample_hasattr)
     (simp add: sample_component_def sample_data_def)

section \<open>The checksum and the order of keys\<close>
















end
